theory Spec2Isabelle
  imports Main "HOL-Library.Word"
begin

section \<open>Constructors for the Kubernetes objects of a DSE datacenter\<close>

text \<open>
  A shallow embedding of \<^verbatim>\<open>operator/pkg/reconciliation/constructor.go\<close>.
  Go structs are records that carry the fields the constructors assign (every other
  field keeps its zero value and is left out), a pointer that may be nil is an
  \<open>option\<close>, a nil slice is the empty list, and a \<^verbatim>\<open>map[string]string\<close> is a
  partial function. Field names that several structs share are written qualified,
  \<open>VolumeMount.Name\<close>, as in Go.
\<close>

subsection \<open>Machine integers, errors, label maps\<close>

type_synonym int32 = "32 word"
type_synonym int64 = "64 word"

text \<open>Go's \<^verbatim>\<open>int\<close> on the 64-bit platforms the operator is built for.\<close>

type_synonym go_int = "64 word"

text \<open>A Go \<^verbatim>\<open>error\<close> value; \<^verbatim>\<open>nil\<close> is \<open>None\<close> of \<open>error option\<close>.\<close>

datatype error = Error string

type_synonym labels = "string \<rightharpoonup> string"

text \<open>Indexing a Go map: a missing key reads as the zero value, the empty string.\<close>

definition index :: "labels \<Rightarrow> string \<Rightarrow> string" where
  "index m k = (case m k of None \<Rightarrow> [] | Some v \<Rightarrow> v)"

subsection \<open>The Kubernetes API types the constructors fill in\<close>

record ObjectMeta =
  Name :: string
  Namespace :: string
  Labels :: labels

text \<open>
  \<^verbatim>\<open>intstr.IntOrString\<close> is a tagged union; \<^verbatim>\<open>intstr.FromInt(val int)\<close> builds
  \<^verbatim>\<open>IntOrString{Type: Int, IntVal: int32(val)}\<close>, the conversion keeping the low 32 bits.
\<close>

datatype IntOrString = IntVal int32 | StrVal string

definition FromInt :: "go_int \<Rightarrow> IntOrString" where
  "FromInt val = IntVal (ucast val)"

record ServicePort =
  Name :: string
  Port :: int32
  TargetPort :: IntOrString

record ServiceSpec =
  Ports :: "ServicePort list"
  Selector :: labels
  Type :: string
  ClusterIP :: string
  PublishNotReadyAddresses :: bool

record Service =
  ObjectMeta :: ObjectMeta
  Spec :: ServiceSpec

datatype NodeSelectorOperator =
  NodeSelectorOpIn | NodeSelectorOpNotIn | NodeSelectorOpExists
  | NodeSelectorOpDoesNotExist | NodeSelectorOpGt | NodeSelectorOpLt

record NodeSelectorRequirement =
  Key :: string
  Operator :: NodeSelectorOperator
  Values :: "string list"

record NodeSelectorTerm =
  MatchExpressions :: "NodeSelectorRequirement list"

record NodeSelector =
  NodeSelectorTerms :: "NodeSelectorTerm list"

record PreferredSchedulingTerm =
  Weight :: int32
  Preference :: NodeSelectorTerm

record NodeAffinity =
  RequiredDuringSchedulingIgnoredDuringExecution :: "NodeSelector option"
  PreferredDuringSchedulingIgnoredDuringExecution :: "PreferredSchedulingTerm list"

datatype LabelSelectorOperator =
  LabelSelectorOpIn | LabelSelectorOpNotIn | LabelSelectorOpExists
  | LabelSelectorOpDoesNotExist

record LabelSelectorRequirement =
  Key :: string
  Operator :: LabelSelectorOperator
  Values :: "string list"

record LabelSelector =
  MatchLabels :: labels
  MatchExpressions :: "LabelSelectorRequirement list"

record PodAffinityTerm =
  LabelSelector :: "LabelSelector option"
  TopologyKey :: string

record WeightedPodAffinityTerm =
  Weight :: int32
  PodAffinityTerm :: PodAffinityTerm

record PodAntiAffinity =
  RequiredDuringSchedulingIgnoredDuringExecution :: "PodAffinityTerm list"
  PreferredDuringSchedulingIgnoredDuringExecution :: "WeightedPodAffinityTerm list"

record Affinity =
  NodeAffinity :: "NodeAffinity option"
  PodAntiAffinity :: "PodAntiAffinity option"

record PodSecurityContext =
  RunAsUser :: "int64 option"
  RunAsGroup :: "int64 option"
  FSGroup :: "int64 option"

record VolumeMount =
  Name :: string
  MountPath :: string

text \<open>
  The constructors only create \<^verbatim>\<open>EmptyDir\<close> volumes; \<open>Secret\<close> (with the secret's
  name) is what a security decorator may add.
\<close>

datatype VolumeSource = EmptyDir | Secret string

record Volume =
  Name :: string
  VolumeSource :: VolumeSource

text \<open>\<^verbatim>\<open>EnvVarSource{FieldRef: &ObjectFieldSelector{FieldPath: p}}\<close> is \<open>FieldRef p\<close>.\<close>

datatype EnvVarSource = FieldRef string

record EnvVar =
  Name :: string
  Value :: string
  ValueFrom :: "EnvVarSource option"

record ContainerPort =
  Name :: string
  ContainerPort :: int32

record HTTPGetAction =
  Port :: IntOrString
  Path :: string

record Handler =
  HTTPGet :: "HTTPGetAction option"

record Probe =
  Handler :: Handler
  InitialDelaySeconds :: int32
  PeriodSeconds :: int32

text \<open>A \<^verbatim>\<open>ResourceList\<close> maps a resource name to a quantity, kept as its text.\<close>

record ResourceRequirements =
  Limits :: "string \<rightharpoonup> string"
  Requests :: "string \<rightharpoonup> string"

record Container =
  Name :: string
  Image :: string
  Args :: "string list"
  Resources :: ResourceRequirements
  Env :: "EnvVar list"
  Ports :: "ContainerPort list"
  LivenessProbe :: "Probe option"
  ReadinessProbe :: "Probe option"
  VolumeMounts :: "VolumeMount list"

record PodSpec =
  Affinity :: "Affinity option"
  SecurityContext :: "PodSecurityContext option"
  Volumes :: "Volume list"
  InitContainers :: "Container list"
  ServiceAccountName :: string
  Containers :: "Container list"

record PodTemplateSpec =
  ObjectMeta :: ObjectMeta
  Spec :: PodSpec

datatype PersistentVolumeAccessMode = ReadWriteOnce | ReadOnlyMany | ReadWriteMany

record PersistentVolumeClaimSpec =
  AccessModes :: "PersistentVolumeAccessMode list"
  Resources :: ResourceRequirements
  StorageClassName :: "string option"

record PersistentVolumeClaim =
  ObjectMeta :: ObjectMeta
  Spec :: PersistentVolumeClaimSpec

datatype PodManagementPolicyType = OrderedReadyPodManagement | ParallelPodManagement

record StatefulSetSpec =
  Selector :: "LabelSelector option"
  Replicas :: "int32 option"
  ServiceName :: string
  PodManagementPolicy :: PodManagementPolicyType
  Template :: PodTemplateSpec
  VolumeClaimTemplates :: "PersistentVolumeClaim list"

record StatefulSet =
  ObjectMeta :: ObjectMeta
  Spec :: StatefulSetSpec

record PodDisruptionBudgetSpec =
  Selector :: "LabelSelector option"
  MinAvailable :: "IntOrString option"

record PodDisruptionBudget =
  ObjectMeta :: ObjectMeta
  Spec :: PodDisruptionBudgetSpec

subsection \<open>The DseDatacenter resource\<close>

text \<open>
  Modelled from the spec: the declaration of the \<^verbatim>\<open>DseDatacenter\<close> type (package
  \<^verbatim>\<open>datastaxv1alpha1\<close>) is not among the sources. The records carry the fields
  that \<^verbatim>\<open>constructor.go\<close> reads, with the types its uses fix (\<open>Size\<close> is converted
  with \<^verbatim>\<open>int(...)\<close> and handed to \<^verbatim>\<open>intstr.FromInt\<close>; \<open>StorageClaim\<close> is compared
  with nil), and, from the spec's data model, the server image reference, the
  config-builder image reference and the opaque configuration payload. The embedded
  object metadata is flattened: \<open>Name\<close>, \<open>Namespace\<close> and the label map, which
  \<^verbatim>\<open>GetLabels\<close> may return as nil.
\<close>

record Rack =
  Name :: string
  Zone :: string

record StorageClaim =
  StorageClassName :: string
  Resources :: ResourceRequirements

record DseDatacenterSpec =
  DseClusterName :: string
  DseVersion :: string
  Size :: int32
  Racks :: "Rack list"
  StorageClaim :: "StorageClaim option"
  Resources :: ResourceRequirements
  ServiceAccount :: string
  AllowMultipleNodesPerWorker :: bool
  DseImage :: string
  ConfigBuilderImage :: string
  Config :: string

record DseDatacenter =
  Name :: string
  Namespace :: string
  Labels :: "labels option"
  Spec :: DseDatacenterSpec

subsection \<open>External collaborators\<close>

text \<open>
  \<^verbatim>\<open>constructor.go\<close> calls into three packages whose code is not among the sources:
  \<^verbatim>\<open>datastaxv1alpha1\<close> (label names and the methods of \<^verbatim>\<open>DseDatacenter\<close>),
  \<^verbatim>\<open>oplabels\<close> and \<^verbatim>\<open>httphelper\<close>. They are parameters of the model, gathered in
  one record, so every theorem holds for whatever they compute.

  Modelled from the spec: the label getters return a fresh, non-nil map on every call
  (section 4.1), so a label map is a value here and the in-place writes of the
  constructors do not alias; the three fallible methods return a value or an error;
  \<^verbatim>\<open>AddManagementApiServerSecurity(dc, &template) error\<close> mutates the template in place,
  so it returns the template it leaves behind together with its error, and only reads
  the datacenter.
\<close>

record collaborators =
  ClusterLabel :: string
  DatacenterLabel :: string
  RackLabel :: string
  SeedNodeLabel :: string
  DseNodeState :: string
  DseOperatorProgressLabel :: string
  ManagedByLabel :: string
  ManagedByLabelValue :: string
  GetDseDatacenterServiceName :: "DseDatacenter \<Rightarrow> string"
  GetSeedServiceName :: "DseDatacenter \<Rightarrow> string"
  GetAllPodsServiceName :: "DseDatacenter \<Rightarrow> string"
  GetClusterLabels :: "DseDatacenter \<Rightarrow> labels"
  GetDatacenterLabels :: "DseDatacenter \<Rightarrow> labels"
  GetRackLabels :: "DseDatacenter \<Rightarrow> string \<Rightarrow> labels"
  GetConfigBuilderImage :: "DseDatacenter \<Rightarrow> string"
  GetRacks :: "DseDatacenterSpec \<Rightarrow> Rack list"
  GetConfigAsJSON :: "DseDatacenter \<Rightarrow> error + string"
  GetContainerPorts :: "DseDatacenter \<Rightarrow> error + ContainerPort list"
  GetServerImage :: "DseDatacenter \<Rightarrow> error + string"
  AddManagementApiServerSecurity ::
    "DseDatacenter \<Rightarrow> PodTemplateSpec \<Rightarrow> PodTemplateSpec \<times> error option"

text \<open>
  Modelled from the spec: \<^verbatim>\<open>oplabels.AddManagedByLabel\<close> is not among the sources; it
  merges the provenance (managed-by) tag into the label map it is given.
\<close>

definition AddManagedByLabel :: "collaborators \<Rightarrow> labels \<Rightarrow> labels" where
  "AddManagedByLabel c m = m(ManagedByLabel c \<mapsto> ManagedByLabelValue c)"

subsection \<open>Services\<close>

definition makeGenericHeadlessService :: "collaborators \<Rightarrow> DseDatacenter \<Rightarrow> Service" where
  "makeGenericHeadlessService c dseDatacenter =
     (let labels = AddManagedByLabel c (GetDatacenterLabels c dseDatacenter)
      in \<lparr>Service.ObjectMeta =
            \<lparr>ObjectMeta.Name = [],
             Namespace = DseDatacenter.Namespace dseDatacenter,
             Labels = labels\<rparr>,
          Spec =
            \<lparr>ServiceSpec.Ports = [],
             Selector = labels,
             Type = ''ClusterIP'',
             ClusterIP = ''None'',
             PublishNotReadyAddresses = False\<rparr>\<rparr>)"

definition newServiceForDseDatacenter :: "collaborators \<Rightarrow> DseDatacenter \<Rightarrow> Service" where
  "newServiceForDseDatacenter c dseDatacenter =
     (let svcName = GetDseDatacenterServiceName c dseDatacenter;
          service = makeGenericHeadlessService c dseDatacenter;
          service = service\<lparr>Service.ObjectMeta :=
                      (Service.ObjectMeta service)\<lparr>ObjectMeta.Name := svcName\<rparr>\<rparr>;
          service = service\<lparr>Service.Spec :=
                      (Service.Spec service)\<lparr>ServiceSpec.Ports :=
                         [\<lparr>ServicePort.Name = ''native'', Port = 9042,
                           TargetPort = FromInt 9042\<rparr>,
                          \<lparr>ServicePort.Name = ''mgmt-api'', Port = 8080,
                           TargetPort = FromInt 8080\<rparr>]\<rparr>\<rparr>
      in service)"

definition buildLabelSelectorForSeedService :: "collaborators \<Rightarrow> DseDatacenter \<Rightarrow> labels" where
  "buildLabelSelectorForSeedService c dseDatacenter =
     (let labels = GetClusterLabels c dseDatacenter;
          labels = labels(SeedNodeLabel c \<mapsto> ''true'')
      in labels)"

definition newSeedServiceForDseDatacenter :: "collaborators \<Rightarrow> DseDatacenter \<Rightarrow> Service" where
  "newSeedServiceForDseDatacenter c dseDatacenter =
     (let service = makeGenericHeadlessService c dseDatacenter;
          service = service\<lparr>Service.ObjectMeta :=
                      (Service.ObjectMeta service)
                        \<lparr>ObjectMeta.Name := GetSeedServiceName c dseDatacenter\<rparr>\<rparr>;
          labels = AddManagedByLabel c (GetClusterLabels c dseDatacenter);
          service = service\<lparr>Service.ObjectMeta :=
                      (Service.ObjectMeta service)\<lparr>ObjectMeta.Labels := labels\<rparr>\<rparr>;
          service = service\<lparr>Service.Spec :=
                      (Service.Spec service)\<lparr>ServiceSpec.Selector :=
                         buildLabelSelectorForSeedService c dseDatacenter\<rparr>\<rparr>;
          service = service\<lparr>Service.Spec :=
                      (Service.Spec service)\<lparr>PublishNotReadyAddresses := True\<rparr>\<rparr>
      in service)"

definition newAllDsePodsServiceForDseDatacenter :: "collaborators \<Rightarrow> DseDatacenter \<Rightarrow> Service" where
  "newAllDsePodsServiceForDseDatacenter c dseDatacenter =
     (let service = makeGenericHeadlessService c dseDatacenter;
          service = service\<lparr>Service.ObjectMeta :=
                      (Service.ObjectMeta service)
                        \<lparr>ObjectMeta.Name := GetAllPodsServiceName c dseDatacenter\<rparr>\<rparr>;
          service = service\<lparr>Service.Spec :=
                      (Service.Spec service)\<lparr>PublishNotReadyAddresses := True\<rparr>\<rparr>
      in service)"

subsection \<open>Affinity\<close>

text \<open>\<open>calculateNodeAffinity\<close> pins all pods of a stateful set to one zone.\<close>

definition calculateNodeAffinity :: "string \<Rightarrow> NodeAffinity option" where
  "calculateNodeAffinity zone =
     (if zone = [] then None
      else Some
        \<lparr>NodeAffinity.RequiredDuringSchedulingIgnoredDuringExecution = Some
           \<lparr>NodeSelectorTerms =
              [\<lparr>NodeSelectorTerm.MatchExpressions =
                  [\<lparr>NodeSelectorRequirement.Key = ''failure-domain.beta.kubernetes.io/zone'',
                    Operator = NodeSelectorOpIn,
                    Values = [zone]\<rparr>]\<rparr>]\<rparr>,
         PreferredDuringSchedulingIgnoredDuringExecution = []\<rparr>)"

text \<open>\<open>calculatePodAntiAffinity\<close> keeps the dse pods of a stateful set away from other dse pods.\<close>

definition calculatePodAntiAffinity :: "collaborators \<Rightarrow> bool \<Rightarrow> PodAntiAffinity option" where
  "calculatePodAntiAffinity c allowMultipleNodesPerWorker =
     (if allowMultipleNodesPerWorker then None
      else Some
        \<lparr>PodAntiAffinity.RequiredDuringSchedulingIgnoredDuringExecution =
           [\<lparr>LabelSelector = Some
               \<lparr>MatchLabels = Map.empty,
                MatchExpressions =
                  [\<lparr>LabelSelectorRequirement.Key = ClusterLabel c,
                    Operator = LabelSelectorOpExists, Values = []\<rparr>,
                   \<lparr>LabelSelectorRequirement.Key = DatacenterLabel c,
                    Operator = LabelSelectorOpExists, Values = []\<rparr>,
                   \<lparr>LabelSelectorRequirement.Key = RackLabel c,
                    Operator = LabelSelectorOpExists, Values = []\<rparr>]\<rparr>,
             TopologyKey = ''kubernetes.io/hostname''\<rparr>],
         PreferredDuringSchedulingIgnoredDuringExecution = []\<rparr>)"

subsection \<open>Stateful sets\<close>

record NamespacedName =
  Name :: string
  Namespace :: string

definition newNamespacedNameForStatefulSet :: "DseDatacenter \<Rightarrow> string \<Rightarrow> NamespacedName" where
  "newNamespacedNameForStatefulSet dseDc rackName =
     (let name = DseClusterName (DseDatacenter.Spec dseDc) @ ''-'' @ DseDatacenter.Name dseDc
                   @ ''-'' @ rackName @ ''-sts'';
          ns = DseDatacenter.Namespace dseDc
      in \<lparr>NamespacedName.Name = name, Namespace = ns\<rparr>)"

text \<open>
  \<open>newStatefulSetForDseDatacenter\<close> creates the stateful set of one rack. Go returns
  the pair \<^verbatim>\<open>(*appsv1.StatefulSet, error)\<close>; the model returns the same pair, each
  component \<open>None\<close> where Go has nil. The rack loop keeps the zone of the last rack
  whose name matches. The error of \<^verbatim>\<open>AddManagementApiServerSecurity\<close> is assigned to
  the blank identifier; the template it leaves behind is the one that is used.
\<close>

definition newStatefulSetForDseDatacenter ::
  "collaborators \<Rightarrow> string \<Rightarrow> DseDatacenter \<Rightarrow> go_int \<Rightarrow> StatefulSet option \<times> error option" where
  "newStatefulSetForDseDatacenter c rackName dseDatacenter replicaCount =
     (let replicaCountInt32 = (ucast replicaCount :: int32);
          podLabels = AddManagedByLabel c (GetRackLabels c dseDatacenter rackName);
          podLabels = podLabels(DseNodeState c \<mapsto> ''Ready-to-Start'');
          pvcLabels = AddManagedByLabel c (GetRackLabels c dseDatacenter rackName);
          statefulSetLabels = AddManagedByLabel c (GetRackLabels c dseDatacenter rackName);
          statefulSetSelectorLabels = GetRackLabels c dseDatacenter rackName;
          dseVersion = DseVersion (DseDatacenter.Spec dseDatacenter);
          userID = (999 :: int64);
          volumeCaimTemplates = ([] :: PersistentVolumeClaim list);
          dseVolumeMounts = ([] :: VolumeMount list);
          initContainerImage = GetConfigBuilderImage c dseDatacenter;
          racks = GetRacks c (DseDatacenter.Spec dseDatacenter);
          zone = foldl (\<lambda>zone rack. if Rack.Name rack = rackName then Zone rack else zone)
                   [] racks;
          dseConfigVolumeMount =
            \<lparr>VolumeMount.Name = ''dse-config'', MountPath = ''/config''\<rparr>;
          dseVolumeMounts = dseVolumeMounts @ [dseConfigVolumeMount];
          dseVolumeMounts = dseVolumeMounts @
            [\<lparr>VolumeMount.Name = ''dse-logs'', MountPath = ''/var/log/cassandra''\<rparr>]
      in case GetConfigAsJSON c dseDatacenter of
           Inl err \<Rightarrow> (None, Some err)
         | Inr configData \<Rightarrow>
      (case
         (case StorageClaim (DseDatacenter.Spec dseDatacenter) of
            None \<Rightarrow> (dseVolumeMounts, volumeCaimTemplates)
          | Some storageClaim \<Rightarrow>
              (let pvcName = ''dse-data''
               in (dseVolumeMounts @
                     [\<lparr>VolumeMount.Name = pvcName, MountPath = ''/var/lib/cassandra''\<rparr>],
                   [\<lparr>PersistentVolumeClaim.ObjectMeta =
                       \<lparr>ObjectMeta.Name = pvcName, Namespace = [], Labels = pvcLabels\<rparr>,
                     Spec =
                       \<lparr>AccessModes = [ReadWriteOnce],
                        Resources = StorageClaim.Resources storageClaim,
                        StorageClassName =
                          Some (StorageClaim.StorageClassName storageClaim)\<rparr>\<rparr>])))
       of (dseVolumeMounts, volumeCaimTemplates) \<Rightarrow>
      (case GetContainerPorts c dseDatacenter of
         Inl err \<Rightarrow> (None, Some err)
       | Inr ports \<Rightarrow>
      (case GetServerImage c dseDatacenter of
         Inl err \<Rightarrow> (None, Some err)
       | Inr dseImage \<Rightarrow>
      (let serviceAccount =
             (if ServiceAccount (DseDatacenter.Spec dseDatacenter) \<noteq> []
              then ServiceAccount (DseDatacenter.Spec dseDatacenter) else ''default'');
           nsName = newNamespacedNameForStatefulSet dseDatacenter rackName;
           template =
             \<lparr>PodTemplateSpec.ObjectMeta =
                \<lparr>ObjectMeta.Name = [], Namespace = [], Labels = podLabels\<rparr>,
              Spec =
                \<lparr>Affinity = Some
                   \<lparr>NodeAffinity = calculateNodeAffinity zone,
                    PodAntiAffinity = calculatePodAntiAffinity c
                      (AllowMultipleNodesPerWorker (DseDatacenter.Spec dseDatacenter))\<rparr>,
                 SecurityContext = Some
                   \<lparr>RunAsUser = Some userID, RunAsGroup = Some userID,
                    FSGroup = Some userID\<rparr>,
                 Volumes =
                   [\<lparr>Volume.Name = ''dse-config'', VolumeSource = EmptyDir\<rparr>,
                    \<lparr>Volume.Name = ''dse-logs'', VolumeSource = EmptyDir\<rparr>],
                 InitContainers =
                   [\<lparr>Container.Name = ''dse-config-init'',
                     Image = initContainerImage,
                     Args = [],
                     Resources = \<lparr>Limits = Map.empty, Requests = Map.empty\<rparr>,
                     Env =
                       [\<lparr>EnvVar.Name = ''CONFIG_FILE_DATA'', Value = configData,
                         ValueFrom = None\<rparr>,
                        \<lparr>EnvVar.Name = ''POD_IP'', Value = [],
                         ValueFrom = Some (FieldRef ''status.podIP'')\<rparr>,
                        \<lparr>EnvVar.Name = ''RACK_NAME'', Value = [],
                         ValueFrom = Some (FieldRef
                           (''metadata.labels['' @ [CHR 0x27] @ RackLabel c
                              @ [CHR 0x27] @ '']''))\<rparr>,
                        \<lparr>EnvVar.Name = ''DSE_VERSION'', Value = dseVersion,
                         ValueFrom = None\<rparr>],
                     Ports = [],
                     LivenessProbe = None,
                     ReadinessProbe = None,
                     VolumeMounts = [dseConfigVolumeMount]\<rparr>],
                 ServiceAccountName = serviceAccount,
                 Containers =
                   [\<lparr>Container.Name = ''dse'',
                     Image = dseImage,
                     Args = [],
                     Resources = DseDatacenterSpec.Resources (DseDatacenter.Spec dseDatacenter),
                     Env =
                       [\<lparr>EnvVar.Name = ''DS_LICENSE'', Value = ''accept'', ValueFrom = None\<rparr>,
                        \<lparr>EnvVar.Name = ''DSE_AUTO_CONF_OFF'', Value = ''all'',
                         ValueFrom = None\<rparr>,
                        \<lparr>EnvVar.Name = ''USE_MGMT_API'', Value = ''true'', ValueFrom = None\<rparr>,
                        \<lparr>EnvVar.Name = ''DSE_MGMT_EXPLICIT_START'', Value = ''true'',
                         ValueFrom = None\<rparr>],
                     Ports = ports,
                     LivenessProbe = Some
                       \<lparr>Handler = \<lparr>HTTPGet = Some
                          \<lparr>HTTPGetAction.Port = FromInt 8080,
                           Path = ''/api/v0/probes/liveness''\<rparr>\<rparr>,
                        InitialDelaySeconds = 15,
                        PeriodSeconds = 15\<rparr>,
                     ReadinessProbe = Some
                       \<lparr>Handler = \<lparr>HTTPGet = Some
                          \<lparr>HTTPGetAction.Port = FromInt 8080,
                           Path = ''/api/v0/probes/readiness''\<rparr>\<rparr>,
                        InitialDelaySeconds = 20,
                        PeriodSeconds = 10\<rparr>,
                     VolumeMounts = dseVolumeMounts\<rparr>,
                    \<lparr>Container.Name = ''dse-system-logger'',
                     Image = ''busybox'',
                     Args = [''/bin/sh'', ''-c'',
                             ''tail -n+1 -F /var/log/cassandra/system.log''],
                     Resources = \<lparr>Limits = Map.empty, Requests = Map.empty\<rparr>,
                     Env = [],
                     Ports = [],
                     LivenessProbe = None,
                     ReadinessProbe = None,
                     VolumeMounts =
                       [\<lparr>VolumeMount.Name = ''dse-logs'',
                         MountPath = ''/var/log/cassandra''\<rparr>]\<rparr>]\<rparr>\<rparr>
       in case AddManagementApiServerSecurity c dseDatacenter template of
            (template, _) \<Rightarrow>
      (let result =
             \<lparr>StatefulSet.ObjectMeta =
                \<lparr>ObjectMeta.Name = NamespacedName.Name nsName,
                 Namespace = NamespacedName.Namespace nsName,
                 Labels = statefulSetLabels\<rparr>,
              Spec =
                \<lparr>StatefulSetSpec.Selector = Some
                   \<lparr>MatchLabels = statefulSetSelectorLabels, MatchExpressions = []\<rparr>,
                 Replicas = Some replicaCountInt32,
                 ServiceName = GetDseDatacenterServiceName c dseDatacenter,
                 PodManagementPolicy = ParallelPodManagement,
                 Template = template,
                 VolumeClaimTemplates = volumeCaimTemplates\<rparr>\<rparr>
       in (Some result, None)))))))"

subsection \<open>Pod disruption budget\<close>

text \<open>
  \<open>dseDatacenter.Spec.Size - 1\<close> is computed on \<open>int32\<close> (it wraps), \<^verbatim>\<open>int(...)\<close>
  sign-extends it to Go's \<open>int\<close>, and \<open>FromInt\<close> narrows it again.
\<close>

definition newPodDisruptionBudgetForDatacenter ::
  "collaborators \<Rightarrow> DseDatacenter \<Rightarrow> PodDisruptionBudget" where
  "newPodDisruptionBudgetForDatacenter c dseDatacenter =
     (let minAvailable = FromInt (scast (Size (DseDatacenter.Spec dseDatacenter) - 1));
          labels = AddManagedByLabel c (GetDatacenterLabels c dseDatacenter);
          selectorLabels = GetDatacenterLabels c dseDatacenter
      in \<lparr>PodDisruptionBudget.ObjectMeta =
            \<lparr>ObjectMeta.Name = DseDatacenter.Name dseDatacenter @ ''-pdb'',
             Namespace = DseDatacenter.Namespace dseDatacenter,
             Labels = labels\<rparr>,
          Spec =
            \<lparr>PodDisruptionBudgetSpec.Selector = Some
               \<lparr>MatchLabels = selectorLabels, MatchExpressions = []\<rparr>,
             MinAvailable = Some minAvailable\<rparr>\<rparr>)"

subsection \<open>The operator progress label\<close>

text \<open>
  \<open>dseOperatorStatus\<close> is a string type, so that no random string is pushed to the
  progress label; its two constants are \<open>updating\<close> and \<open>ready\<close>.
\<close>

type_synonym dseOperatorStatus = string

definition updating :: dseOperatorStatus where
  "updating = ''Updating''"

definition ready :: dseOperatorStatus where
  "ready = ''Ready''"

text \<open>
  Modelled from the spec: the reconciliation context (package \<^verbatim>\<open>dsereconciliation\<close>)
  and the persistence client behind \<^verbatim>\<open>rc.Client\<close> are not among the sources. The
  context holds the datacenter object, the client and the logger. The client is
  \<^verbatim>\<open>update(object) -> error\<close> (section 6): its state is the list of objects pushed
  to it so far, oldest first, and \<open>Update\<close> answers a push from that history, so the
  answers may change from one call to the next; the pushed object keeps the labels it
  was sent with. The logger is the list of the entries written, each the label and
  the value that could not be stored.
\<close>

record Client =
  Update :: "DseDatacenter list \<Rightarrow> DseDatacenter \<Rightarrow> error option"
  pushed :: "DseDatacenter list"

record ReconciliationContext =
  DseDatacenter :: DseDatacenter
  Client :: Client
  ReqLogger :: "(error \<times> string \<times> string \<times> string) list"

definition addOperatorProgressLabel ::
  "collaborators \<Rightarrow> ReconciliationContext \<Rightarrow> dseOperatorStatus
     \<Rightarrow> ReconciliationContext \<times> error option" where
  "addOperatorProgressLabel c rc status =
     (let labelVal = status;
          dcLabels = (case DseDatacenter.Labels (DseDatacenter rc) of
                        None \<Rightarrow> Map.empty
                      | Some m \<Rightarrow> m)
      in if index dcLabels (DseOperatorProgressLabel c) = labelVal
         then (rc, None)
         else
           (let dcLabels = dcLabels(DseOperatorProgressLabel c \<mapsto> labelVal);
                rc = rc\<lparr>DseDatacenter :=
                        (DseDatacenter rc)\<lparr>DseDatacenter.Labels := Some dcLabels\<rparr>\<rparr>;
                err = Update (Client rc) (pushed (Client rc)) (DseDatacenter rc);
                rc = rc\<lparr>Client :=
                        (Client rc)\<lparr>pushed := pushed (Client rc) @ [DseDatacenter rc]\<rparr>\<rparr>
            in case err of
                 Some err \<Rightarrow>
                   (rc\<lparr>ReqLogger := ReqLogger rc @
                         [(err, ''error updating label'', DseOperatorProgressLabel c,
                           labelVal)]\<rparr>,
                    Some err)
               | None \<Rightarrow> (rc, None)))"

text \<open>
  The progress label an object carries, if any: what
  \<^verbatim>\<open>GetLabels()[DseOperatorProgressLabel]\<close> finds.
\<close>

definition progressLabel :: "collaborators \<Rightarrow> DseDatacenter \<Rightarrow> string option" where
  "progressLabel c dc =
     (case DseDatacenter.Labels dc of
        None \<Rightarrow> None
      | Some m \<Rightarrow> m (DseOperatorProgressLabel c))"

subsection \<open>What a security decorator may be assumed to do\<close>

text \<open>
  The decorator is free to rewrite the whole template. Two properties of it are
  hypotheses of theorems about the template of the returned stateful set. The first:
  it only adds to the containers, so every container of the template it is given is
  still there under its name, with at least the volume mounts it had.
\<close>

definition keepsVolumeMounts :: "collaborators \<Rightarrow> DseDatacenter \<Rightarrow> bool" where
  "keepsVolumeMounts c dc \<longleftrightarrow>
     (\<forall>t. \<forall>k \<in> set (Containers (PodTemplateSpec.Spec t)).
        \<exists>k' \<in> set (Containers (PodTemplateSpec.Spec
                       (fst (AddManagementApiServerSecurity c dc t)))).
          Container.Name k' = Container.Name k
          \<and> set (VolumeMounts k) \<subseteq> set (VolumeMounts k'))"

text \<open>The second: it leaves the pod labels of the template as they are.\<close>

definition keepsPodLabels :: "collaborators \<Rightarrow> DseDatacenter \<Rightarrow> bool" where
  "keepsPodLabels c dc \<longleftrightarrow>
     (\<forall>t. ObjectMeta.Labels (PodTemplateSpec.ObjectMeta
             (fst (AddManagementApiServerSecurity c dc t))) =
           ObjectMeta.Labels (PodTemplateSpec.ObjectMeta t))"

subsection \<open>Sample inputs\<close>

text \<open>
  One instance of the collaborators, used to run the constructors: three label
  scopes nested in each other, a default rack when none is declared, a server image
  that must be set, and a security decorator that mounts a secret volume into the
  container named \<open>dse\<close>.
\<close>

definition sample_collaborators :: collaborators where
  "sample_collaborators =
     \<lparr>ClusterLabel = ''com.datastax.dse.cluster'',
      DatacenterLabel = ''com.datastax.dse.datacenter'',
      RackLabel = ''com.datastax.dse.rack'',
      SeedNodeLabel = ''com.datastax.dse.seednode'',
      DseNodeState = ''com.datastax.dse.node.state'',
      DseOperatorProgressLabel = ''com.datastax.dse.operator.progress'',
      ManagedByLabel = ''app.kubernetes.io/managed-by'',
      ManagedByLabelValue = ''dse-operator'',
      GetDseDatacenterServiceName =
        (\<lambda>dc. DseClusterName (DseDatacenter.Spec dc) @ ''-'' @ DseDatacenter.Name dc
               @ ''-service''),
      GetSeedServiceName =
        (\<lambda>dc. DseClusterName (DseDatacenter.Spec dc) @ ''-seed-service''),
      GetAllPodsServiceName =
        (\<lambda>dc. DseClusterName (DseDatacenter.Spec dc) @ ''-'' @ DseDatacenter.Name dc
               @ ''-all-pods-service''),
      GetClusterLabels =
        (\<lambda>dc. [''com.datastax.dse.cluster'' \<mapsto> DseClusterName (DseDatacenter.Spec dc)]),
      GetDatacenterLabels =
        (\<lambda>dc. [''com.datastax.dse.cluster'' \<mapsto> DseClusterName (DseDatacenter.Spec dc),
               ''com.datastax.dse.datacenter'' \<mapsto> DseDatacenter.Name dc]),
      GetRackLabels =
        (\<lambda>dc rackName.
           [''com.datastax.dse.cluster'' \<mapsto> DseClusterName (DseDatacenter.Spec dc),
            ''com.datastax.dse.datacenter'' \<mapsto> DseDatacenter.Name dc,
            ''com.datastax.dse.rack'' \<mapsto> rackName]),
      GetConfigBuilderImage = (\<lambda>dc. ConfigBuilderImage (DseDatacenter.Spec dc)),
      GetRacks =
        (\<lambda>s. if Racks s = [] then [\<lparr>Rack.Name = ''default'', Zone = []\<rparr>] else Racks s),
      GetConfigAsJSON = (\<lambda>dc. Inr (Config (DseDatacenter.Spec dc))),
      GetContainerPorts =
        (\<lambda>dc. Inr [\<lparr>ContainerPort.Name = ''native'', ContainerPort = 9042\<rparr>,
                   \<lparr>ContainerPort.Name = ''mgmt-api-http'', ContainerPort = 8080\<rparr>]),
      GetServerImage =
        (\<lambda>dc. if DseImage (DseDatacenter.Spec dc) = []
              then Inl (Error ''no server image'')
              else Inr (DseImage (DseDatacenter.Spec dc))),
      AddManagementApiServerSecurity =
        (\<lambda>dc template.
           (template\<lparr>PodTemplateSpec.Spec := (PodTemplateSpec.Spec template)
              \<lparr>Volumes := Volumes (PodTemplateSpec.Spec template) @
                 [\<lparr>Volume.Name = ''mgmt-api-certs'', VolumeSource = Secret ''mgmt-api-tls''\<rparr>],
               Containers :=
                 map (\<lambda>k. if Container.Name k = ''dse''
                          then k\<lparr>VolumeMounts := VolumeMounts k @
                                 [\<lparr>VolumeMount.Name = ''mgmt-api-certs'',
                                   MountPath = ''/management-api-certs''\<rparr>]\<rparr>
                          else k)
                   (Containers (PodTemplateSpec.Spec template))\<rparr>\<rparr>,
            None))\<rparr>"

text \<open>
  The same collaborators with a security decorator that fails after it has added
  its volume to the template.
\<close>

definition failing_security :: collaborators where
  "failing_security =
     sample_collaborators\<lparr>AddManagementApiServerSecurity :=
       (\<lambda>dc template.
          (template\<lparr>PodTemplateSpec.Spec := (PodTemplateSpec.Spec template)
             \<lparr>Volumes := Volumes (PodTemplateSpec.Spec template) @
                [\<lparr>Volume.Name = ''mgmt-api-certs'', VolumeSource = Secret ''mgmt-api-tls''\<rparr>]\<rparr>\<rparr>,
           Some (Error ''could not find the mgmt-api secret'')))\<rparr>"

text \<open>Collaborators whose config rendering, port resolution or image resolution fails.\<close>

definition failing_config :: collaborators where
  "failing_config =
     sample_collaborators\<lparr>GetConfigAsJSON := (\<lambda>dc. Inl (Error ''config is not valid JSON''))\<rparr>"

definition failing_ports :: collaborators where
  "failing_ports =
     sample_collaborators\<lparr>GetContainerPorts := (\<lambda>dc. Inl (Error ''no port for this version''))\<rparr>"

text \<open>
  The scenario of the specification: cluster \<open>cluster1\<close>, datacenter \<open>dc1\<close>, three
  nodes, one rack \<open>rack1\<close> in \<open>zoneA\<close>, a storage claim of 10Gi.
\<close>

definition sample_datacenter :: DseDatacenter where
  "sample_datacenter =
     \<lparr>DseDatacenter.Name = ''dc1'',
      Namespace = ''prod'',
      Labels = None,
      Spec =
        \<lparr>DseClusterName = ''cluster1'',
         DseVersion = ''6.8.0'',
         Size = 3,
         Racks = [\<lparr>Rack.Name = ''rack1'', Zone = ''zoneA''\<rparr>],
         StorageClaim = Some
           \<lparr>StorageClaim.StorageClassName = ''standard'',
            Resources = \<lparr>Limits = Map.empty, Requests = [''storage'' \<mapsto> ''10Gi'']\<rparr>\<rparr>,
         Resources = \<lparr>Limits = Map.empty, Requests = Map.empty\<rparr>,
         ServiceAccount = [],
         AllowMultipleNodesPerWorker = False,
         DseImage = ''datastax/dse-server:6.8.0'',
         ConfigBuilderImage = ''datastax/dse-config-builder:6.8.0'',
         Config = ''{}''\<rparr>\<rparr>"

text \<open>The same datacenter with a single node, without storage claim, without server image.\<close>

definition single_node_datacenter :: DseDatacenter where
  "single_node_datacenter =
     sample_datacenter\<lparr>DseDatacenter.Spec :=
       (DseDatacenter.Spec sample_datacenter)\<lparr>Size := 1\<rparr>\<rparr>"

definition ephemeral_datacenter :: DseDatacenter where
  "ephemeral_datacenter =
     sample_datacenter\<lparr>DseDatacenter.Spec :=
       (DseDatacenter.Spec sample_datacenter)\<lparr>StorageClaim := None\<rparr>\<rparr>"

definition imageless_datacenter :: DseDatacenter where
  "imageless_datacenter =
     sample_datacenter\<lparr>DseDatacenter.Spec :=
       (DseDatacenter.Spec sample_datacenter)\<lparr>DseImage := []\<rparr>\<rparr>"

text \<open>A reconciliation context whose client accepts every update.\<close>

definition sample_context :: ReconciliationContext where
  "sample_context =
     \<lparr>DseDatacenter = sample_datacenter,
      Client = \<lparr>Update = (\<lambda>history object. None), pushed = []\<rparr>,
      ReqLogger = []\<rparr>"

text \<open>
  The same context once the datacenter carries the progress label \<open>Ready\<close>, and one
  whose client rejects every update with a conflict.
\<close>

definition ready_context :: ReconciliationContext where
  "ready_context =
     sample_context\<lparr>DseDatacenter :=
       sample_datacenter\<lparr>DseDatacenter.Labels :=
         Some [''com.datastax.dse.operator.progress'' \<mapsto> ''Ready'']\<rparr>\<rparr>"

definition rejecting_context :: ReconciliationContext where
  "rejecting_context =
     sample_context\<lparr>Client :=
       \<lparr>Update = (\<lambda>history object. Some (Error ''the object has been modified'')),
        pushed = []\<rparr>\<rparr>"

section \<open>Properties\<close>

subsection \<open>Integer conversions\<close>

lemma ucast_scast_int32: "ucast (scast (w :: 32 word) :: 64 word) = w"
  by (rule bit_word_eqI) (auto simp add: bit_simps)

lemma sint_pred_int32:
  assumes "1 \<le> sint (s :: 32 word)"
  shows "sint (s - 1) = sint s - 1"
proof -
  have "sint s < 2 ^ 31" using sint_lt [of s] by simp
  with assms have "signed_take_bit 31 (sint s - 1) = sint s - 1"
    by (simp add: signed_take_bit_int_eq_self)
  then show ?thesis by (simp add: sint_word_ariths)
qed

subsection \<open>Affinity\<close>

text \<open>
  C2. \<open>calculateNodeAffinity\<close> of the empty zone is nil. For every other zone it is a
  node affinity with no preferred (soft) term and one required (hard) node selector:
  a single term with a single requirement, that the label
  \<^verbatim>\<open>failure-domain.beta.kubernetes.io/zone\<close> of the node is \<open>In\<close> the one-element
  list of the zone.
\<close>

theorem calculateNodeAffinity_pins_zone:
  "calculateNodeAffinity [] = None \<and>
   (zone \<noteq> [] \<longrightarrow>
      calculateNodeAffinity zone = Some
        \<lparr>NodeAffinity.RequiredDuringSchedulingIgnoredDuringExecution = Some
           \<lparr>NodeSelectorTerms =
              [\<lparr>NodeSelectorTerm.MatchExpressions =
                  [\<lparr>NodeSelectorRequirement.Key = ''failure-domain.beta.kubernetes.io/zone'',
                    Operator = NodeSelectorOpIn,
                    Values = [zone]\<rparr>]\<rparr>]\<rparr>,
         PreferredDuringSchedulingIgnoredDuringExecution = []\<rparr>)"
  by (simp add: calculateNodeAffinity_def)

text \<open>The zone \<open>zoneA\<close> of the specification's scenario.\<close>

theorem calculateNodeAffinity_pins_zone_witness:
  "''zoneA'' \<noteq> [] \<and>
   calculateNodeAffinity ''zoneA'' = Some
        \<lparr>NodeAffinity.RequiredDuringSchedulingIgnoredDuringExecution = Some
           \<lparr>NodeSelectorTerms =
              [\<lparr>NodeSelectorTerm.MatchExpressions =
                  [\<lparr>NodeSelectorRequirement.Key = ''failure-domain.beta.kubernetes.io/zone'',
                    Operator = NodeSelectorOpIn,
                    Values = [''zoneA'']\<rparr>]\<rparr>]\<rparr>,
         PreferredDuringSchedulingIgnoredDuringExecution = []\<rparr>"
  using calculateNodeAffinity_pins_zone [of "''zoneA''"] by simp

text \<open>
  C3. \<open>calculatePodAntiAffinity\<close> is nil when several nodes may share a worker.
  Otherwise it has no preferred (soft) term and one required (hard) term, with
  topology key \<^verbatim>\<open>kubernetes.io/hostname\<close> and a selector that requires the cluster,
  the datacenter and the rack label key to exist.
\<close>

theorem calculatePodAntiAffinity_spreads_hosts:
  "calculatePodAntiAffinity c True = None \<and>
   calculatePodAntiAffinity c False = Some
     \<lparr>PodAntiAffinity.RequiredDuringSchedulingIgnoredDuringExecution =
        [\<lparr>LabelSelector = Some
            \<lparr>MatchLabels = Map.empty,
             MatchExpressions =
               [\<lparr>LabelSelectorRequirement.Key = ClusterLabel c,
                 Operator = LabelSelectorOpExists, Values = []\<rparr>,
                \<lparr>LabelSelectorRequirement.Key = DatacenterLabel c,
                 Operator = LabelSelectorOpExists, Values = []\<rparr>,
                \<lparr>LabelSelectorRequirement.Key = RackLabel c,
                 Operator = LabelSelectorOpExists, Values = []\<rparr>]\<rparr>,
          TopologyKey = ''kubernetes.io/hostname''\<rparr>],
      PreferredDuringSchedulingIgnoredDuringExecution = []\<rparr>"
  by (simp add: calculatePodAntiAffinity_def)

subsection \<open>Pod disruption budget\<close>

text \<open>
  C4. For a datacenter of declared size at least 1 (read as a signed 32-bit integer),
  the budget's \<open>MinAvailable\<close> is the integer variant whose value is the size minus
  one: neither the subtraction nor the two conversions lose anything.
\<close>

theorem minAvailable_is_size_minus_one:
  assumes "1 \<le> sint (Size (DseDatacenter.Spec dc))"
  shows "\<exists>w. MinAvailable (PodDisruptionBudget.Spec (newPodDisruptionBudgetForDatacenter c dc))
                = Some (IntVal w)
             \<and> sint w = sint (Size (DseDatacenter.Spec dc)) - 1"
  using assms
  by (simp add: newPodDisruptionBudgetForDatacenter_def Let_def FromInt_def
        ucast_scast_int32 sint_pred_int32)

text \<open>The edge of the claim: a single node gives a budget of 0.\<close>

theorem minAvailable_is_size_minus_one_witness:
  "1 \<le> sint (Size (DseDatacenter.Spec single_node_datacenter)) \<and>
   MinAvailable (PodDisruptionBudget.Spec
      (newPodDisruptionBudgetForDatacenter sample_collaborators single_node_datacenter))
     = Some (IntVal 0)"
proof -
  have h: "1 \<le> sint (Size (DseDatacenter.Spec single_node_datacenter))"
    by (simp add: single_node_datacenter_def sample_datacenter_def)
  from minAvailable_is_size_minus_one [OF h, of sample_collaborators]
  obtain w where
    w: "MinAvailable (PodDisruptionBudget.Spec
          (newPodDisruptionBudgetForDatacenter sample_collaborators single_node_datacenter))
        = Some (IntVal w)"
    and s: "sint w = sint (Size (DseDatacenter.Spec single_node_datacenter)) - 1"
    by blast
  from s have "sint w = 0"
    by (simp add: single_node_datacenter_def sample_datacenter_def)
  then have "w = 0" by (simp add: signed_eq_0_iff)
  with h w show ?thesis by simp
qed

subsection \<open>Services\<close>

text \<open>
  C7. The three services are headless (cluster IP \<open>None\<close>). The client service has
  exactly the ports 9042 (\<open>native\<close>) and 8080 (\<open>mgmt-api\<close>). The selector of the
  seed service is the cluster label set with the seed marker label set to \<open>true\<close>, and
  the service publishes addresses that are not ready. The selector of the all-pods
  service is the datacenter label set with the managed-by tag, with no seed entry (as
  long as the seed marker is neither a datacenter label nor the managed-by label), and
  the service publishes addresses that are not ready as well.
\<close>

theorem services_are_headless:
  "ClusterIP (Service.Spec (newServiceForDseDatacenter c dc)) = ''None'' \<and>
   ClusterIP (Service.Spec (newSeedServiceForDseDatacenter c dc)) = ''None'' \<and>
   ClusterIP (Service.Spec (newAllDsePodsServiceForDseDatacenter c dc)) = ''None'' \<and>
   ServiceSpec.Ports (Service.Spec (newServiceForDseDatacenter c dc)) =
     [\<lparr>ServicePort.Name = ''native'', Port = 9042, TargetPort = IntVal 9042\<rparr>,
      \<lparr>ServicePort.Name = ''mgmt-api'', Port = 8080, TargetPort = IntVal 8080\<rparr>] \<and>
   ServiceSpec.Selector (Service.Spec (newSeedServiceForDseDatacenter c dc)) =
     (GetClusterLabels c dc)(SeedNodeLabel c \<mapsto> ''true'') \<and>
   PublishNotReadyAddresses (Service.Spec (newSeedServiceForDseDatacenter c dc)) \<and>
   ServiceSpec.Selector (Service.Spec (newAllDsePodsServiceForDseDatacenter c dc)) =
     (GetDatacenterLabels c dc)(ManagedByLabel c \<mapsto> ManagedByLabelValue c) \<and>
   (SeedNodeLabel c \<notin> dom (GetDatacenterLabels c dc) \<and> SeedNodeLabel c \<noteq> ManagedByLabel c
      \<longrightarrow> ServiceSpec.Selector (Service.Spec (newAllDsePodsServiceForDseDatacenter c dc))
            (SeedNodeLabel c) = None) \<and>
   PublishNotReadyAddresses (Service.Spec (newAllDsePodsServiceForDseDatacenter c dc))"
  by (auto simp add: newServiceForDseDatacenter_def newSeedServiceForDseDatacenter_def
        newAllDsePodsServiceForDseDatacenter_def makeGenericHeadlessService_def
        buildLabelSelectorForSeedService_def AddManagedByLabel_def FromInt_def Let_def)

text \<open>On the sample datacenter the seed marker is in the seed selector only.\<close>

theorem services_are_headless_witness:
  "SeedNodeLabel sample_collaborators \<notin> dom (GetDatacenterLabels sample_collaborators sample_datacenter) \<and>
   SeedNodeLabel sample_collaborators \<noteq> ManagedByLabel sample_collaborators \<and>
   ServiceSpec.Selector (Service.Spec
       (newAllDsePodsServiceForDseDatacenter sample_collaborators sample_datacenter))
     ''com.datastax.dse.seednode'' = None \<and>
   ServiceSpec.Selector (Service.Spec
       (newSeedServiceForDseDatacenter sample_collaborators sample_datacenter))
     ''com.datastax.dse.seednode'' = Some ''true''"
proof -
  have h: "SeedNodeLabel sample_collaborators
             \<notin> dom (GetDatacenterLabels sample_collaborators sample_datacenter)
           \<and> SeedNodeLabel sample_collaborators \<noteq> ManagedByLabel sample_collaborators"
    by (simp add: sample_collaborators_def)
  have k: "SeedNodeLabel sample_collaborators = ''com.datastax.dse.seednode''"
    by (simp add: sample_collaborators_def)
  from services_are_headless [of sample_collaborators sample_datacenter] h k
  have "ServiceSpec.Selector (Service.Spec
          (newAllDsePodsServiceForDseDatacenter sample_collaborators sample_datacenter))
          ''com.datastax.dse.seednode'' = None"
   and "ServiceSpec.Selector (Service.Spec
          (newSeedServiceForDseDatacenter sample_collaborators sample_datacenter))
          ''com.datastax.dse.seednode'' = Some ''true''"
    by (simp_all add: domIff)
  with h show ?thesis by blast
qed

subsection \<open>Name of the stateful set\<close>

text \<open>
  C8. The namespaced name of the stateful set of a rack is the cluster name, the
  datacenter name and the rack name joined by \<open>-\<close>, with the suffix \<open>-sts\<close>, in the
  namespace of the datacenter; a stateful set that is returned carries that name and
  namespace; and the name only depends on the three names, so it is the same on every
  call and for every datacenter object that agrees on them.
\<close>

theorem statefulset_name_is_composite:
  "NamespacedName.Name (newNamespacedNameForStatefulSet dc rackName) =
     DseClusterName (DseDatacenter.Spec dc) @ ''-'' @ DseDatacenter.Name dc @ ''-''
       @ rackName @ ''-sts'' \<and>
   NamespacedName.Namespace (newNamespacedNameForStatefulSet dc rackName) =
     DseDatacenter.Namespace dc \<and>
   (\<forall>sts. fst (newStatefulSetForDseDatacenter c rackName dc replicaCount) = Some sts \<longrightarrow>
      ObjectMeta.Name (StatefulSet.ObjectMeta sts) =
        DseClusterName (DseDatacenter.Spec dc) @ ''-'' @ DseDatacenter.Name dc @ ''-''
          @ rackName @ ''-sts'' \<and>
      ObjectMeta.Namespace (StatefulSet.ObjectMeta sts) = DseDatacenter.Namespace dc) \<and>
   (DseClusterName (DseDatacenter.Spec dc') = DseClusterName (DseDatacenter.Spec dc) \<and>
    DseDatacenter.Name dc' = DseDatacenter.Name dc \<longrightarrow>
      NamespacedName.Name (newNamespacedNameForStatefulSet dc' rackName) =
      NamespacedName.Name (newNamespacedNameForStatefulSet dc rackName))"
  by (auto simp add: newNamespacedNameForStatefulSet_def newStatefulSetForDseDatacenter_def
        Let_def split: sum.splits option.splits prod.splits)

text \<open>The scenario of the specification gives \<open>cluster1-dc1-rack1-sts\<close>.\<close>

theorem statefulset_name_is_composite_witness:
  "fst (newStatefulSetForDseDatacenter sample_collaborators ''rack1'' sample_datacenter 3) \<noteq> None \<and>
   ObjectMeta.Name (StatefulSet.ObjectMeta
     (the (fst (newStatefulSetForDseDatacenter sample_collaborators ''rack1'' sample_datacenter 3))))
     = ''cluster1-dc1-rack1-sts'' \<and>
   ObjectMeta.Namespace (StatefulSet.ObjectMeta
     (the (fst (newStatefulSetForDseDatacenter sample_collaborators ''rack1'' sample_datacenter 3))))
     = ''prod'' \<and>
   DseClusterName (DseDatacenter.Spec single_node_datacenter) = DseClusterName (DseDatacenter.Spec sample_datacenter) \<and>
   DseDatacenter.Name single_node_datacenter = DseDatacenter.Name sample_datacenter \<and>
   NamespacedName.Name (newNamespacedNameForStatefulSet single_node_datacenter ''rack1'') =
   NamespacedName.Name (newNamespacedNameForStatefulSet sample_datacenter ''rack1'')"
proof -
  have ok: "fst (newStatefulSetForDseDatacenter sample_collaborators ''rack1'' sample_datacenter 3) \<noteq> None"
    by (simp add: newStatefulSetForDseDatacenter_def sample_collaborators_def
          sample_datacenter_def Let_def)
  then obtain sts where
    sts: "fst (newStatefulSetForDseDatacenter sample_collaborators ''rack1'' sample_datacenter 3) = Some sts"
    by blast
  have same: "DseClusterName (DseDatacenter.Spec single_node_datacenter) = DseClusterName (DseDatacenter.Spec sample_datacenter) \<and>
   DseDatacenter.Name single_node_datacenter = DseDatacenter.Name sample_datacenter"
    by (simp add: single_node_datacenter_def)
  from statefulset_name_is_composite
         [of sample_datacenter "''rack1''" sample_collaborators 3 single_node_datacenter]
       sts same
  have "ObjectMeta.Name (StatefulSet.ObjectMeta sts) =
        DseClusterName (DseDatacenter.Spec sample_datacenter) @ ''-'' @ DseDatacenter.Name sample_datacenter @ ''-''
          @ ''rack1'' @ ''-sts''"
   and "ObjectMeta.Namespace (StatefulSet.ObjectMeta sts) = DseDatacenter.Namespace sample_datacenter"
   and "NamespacedName.Name (newNamespacedNameForStatefulSet single_node_datacenter ''rack1'') =
   NamespacedName.Name (newNamespacedNameForStatefulSet sample_datacenter ''rack1'')"
    by blast+
  with ok sts same show ?thesis by (simp add: sample_datacenter_def)
qed

subsection \<open>The operator progress label\<close>

text \<open>
  C5. For a desired status among \<open>Updating\<close> and \<open>Ready\<close>: when the datacenter
  object already carries that value in its progress label, \<open>addOperatorProgressLabel\<close>
  returns nil and leaves the context as it was, so nothing is pushed to the client;
  otherwise it pushes exactly one object, the datacenter with the desired value in
  its progress label, and returns what the client answered to that push, error
  included; and when that first push was accepted, a second call with the same status
  pushes nothing and returns nil, so the two calls together push exactly once.
\<close>

theorem progress_label_written_once:
  assumes "status \<in> {updating, ready}"
  shows "(progressLabel c (DseDatacenter rc) = Some status \<longrightarrow>
            addOperatorProgressLabel c rc status = (rc, None)) \<and>
         (progressLabel c (DseDatacenter rc) \<noteq> Some status \<longrightarrow>
            (\<exists>rc' dc'.
               addOperatorProgressLabel c rc status =
                 (rc', Update (Client rc) (pushed (Client rc)) dc') \<and>
               pushed (Client rc') = pushed (Client rc) @ [dc'] \<and>
               DseDatacenter rc' = dc' \<and>
               progressLabel c dc' = Some status)) \<and>
         (progressLabel c (DseDatacenter rc) \<noteq> Some status \<and>
          snd (addOperatorProgressLabel c rc status) = None \<longrightarrow>
            addOperatorProgressLabel c (fst (addOperatorProgressLabel c rc status)) status =
              (fst (addOperatorProgressLabel c rc status), None) \<and>
            length (pushed (Client (fst (addOperatorProgressLabel c
              (fst (addOperatorProgressLabel c rc status)) status)))) =
              length (pushed (Client rc)) + 1)"
  using assms
  by (auto simp add: addOperatorProgressLabel_def progressLabel_def index_def Let_def
        updating_def ready_def split: option.splits)

text \<open>
  A first transition to \<open>Ready\<close> followed by a second, a transition that is already
  done, and a transition the client rejects.
\<close>

theorem progress_label_written_once_witness:
  "ready \<in> {updating, ready} \<and>
   progressLabel sample_collaborators (DseDatacenter sample_context) \<noteq> Some ready \<and>
   snd (addOperatorProgressLabel sample_collaborators sample_context ready) = None \<and>
   length (pushed (Client (fst (addOperatorProgressLabel sample_collaborators
      (fst (addOperatorProgressLabel sample_collaborators sample_context ready)) ready)))) = 1 \<and>
   progressLabel sample_collaborators (DseDatacenter ready_context) = Some ready \<and>
   addOperatorProgressLabel sample_collaborators ready_context ready = (ready_context, None) \<and>
   progressLabel sample_collaborators (DseDatacenter rejecting_context) \<noteq> Some updating \<and>
   snd (addOperatorProgressLabel sample_collaborators rejecting_context updating) =
     Some (Error ''the object has been modified'') \<and>
   length (pushed (Client (fst
     (addOperatorProgressLabel sample_collaborators rejecting_context updating)))) = 1"
proof -
  have st: "ready \<in> {updating, ready}" "updating \<in> {updating, ready}"
    by simp_all
  have differs: "progressLabel sample_collaborators (DseDatacenter sample_context) \<noteq> Some ready"
    by (simp add: progressLabel_def sample_context_def sample_datacenter_def)
  have accepted: "snd (addOperatorProgressLabel sample_collaborators sample_context ready) = None"
    by (simp add: addOperatorProgressLabel_def index_def Let_def sample_context_def
          sample_datacenter_def ready_def)
  have equal: "progressLabel sample_collaborators (DseDatacenter ready_context) = Some ready"
    by (simp add: progressLabel_def ready_context_def sample_context_def
          sample_collaborators_def ready_def)
  have differs': "progressLabel sample_collaborators (DseDatacenter rejecting_context)
                    \<noteq> Some updating"
    by (simp add: progressLabel_def rejecting_context_def sample_context_def
          sample_datacenter_def)
  have empty: "pushed (Client sample_context) = []" "pushed (Client rejecting_context) = []"
    and rejects: "Update (Client rejecting_context) h d = Some (Error ''the object has been modified'')" for h d
    by (simp_all add: sample_context_def rejecting_context_def)
  from progress_label_written_once [OF st(1), of sample_collaborators sample_context]
       differs accepted empty
  have twice: "length (pushed (Client (fst (addOperatorProgressLabel sample_collaborators
      (fst (addOperatorProgressLabel sample_collaborators sample_context ready)) ready)))) = 1"
    by auto
  from progress_label_written_once [OF st(1), of sample_collaborators ready_context] equal
  have noop: "addOperatorProgressLabel sample_collaborators ready_context ready
                = (ready_context, None)"
    by blast
  from progress_label_written_once [OF st(2), of sample_collaborators rejecting_context] differs'
  obtain rc' dc' where
    "addOperatorProgressLabel sample_collaborators rejecting_context updating =
       (rc', Update (Client rejecting_context) (pushed (Client rejecting_context)) dc')"
    and "pushed (Client rc') = pushed (Client rejecting_context) @ [dc']"
    by blast
  with empty rejects
  have failed: "snd (addOperatorProgressLabel sample_collaborators rejecting_context updating) =
     Some (Error ''the object has been modified'')"
    and once: "length (pushed (Client (fst
     (addOperatorProgressLabel sample_collaborators rejecting_context updating)))) = 1"
    by simp_all
  from st differs accepted twice equal noop differs' failed once show ?thesis
    by blast
qed

subsection \<open>Synthesis of the stateful set\<close>

text \<open>
  What the constructor returns once the three fallible collaborators have answered:
  the descriptor, a nil error, the template the security decorator was given and the
  parts of the descriptor that the properties below are about.
\<close>

lemma newStatefulSet_success:
  assumes "fst (newStatefulSetForDseDatacenter c rackName dc replicaCount) = Some sts"
  shows "\<exists>cfg ports img. GetConfigAsJSON c dc = Inr cfg \<and> GetContainerPorts c dc = Inr ports
           \<and> GetServerImage c dc = Inr img"
  using assms
  by (auto simp add: newStatefulSetForDseDatacenter_def Let_def
        split: sum.splits option.splits prod.splits)

lemma newStatefulSet_result:
  assumes "GetConfigAsJSON c dc = Inr cfg"
    and "GetContainerPorts c dc = Inr ports"
    and "GetServerImage c dc = Inr img"
  shows "\<exists>t sts main rest.
           newStatefulSetForDseDatacenter c rackName dc replicaCount = (Some sts, None)
           \<and> Template (StatefulSet.Spec sts) = fst (AddManagementApiServerSecurity c dc t)
           \<and> ObjectMeta.Labels (PodTemplateSpec.ObjectMeta t) =
               (GetRackLabels c dc rackName)
                 (ManagedByLabel c \<mapsto> ManagedByLabelValue c,
                  DseNodeState c \<mapsto> ''Ready-to-Start'')
           \<and> Containers (PodTemplateSpec.Spec t) = main # rest
           \<and> Container.Name main = ''dse''
           \<and> VolumeMounts main =
               [\<lparr>VolumeMount.Name = ''dse-config'', MountPath = ''/config''\<rparr>,
                \<lparr>VolumeMount.Name = ''dse-logs'', MountPath = ''/var/log/cassandra''\<rparr>] @
               (case StorageClaim (DseDatacenter.Spec dc) of
                  None \<Rightarrow> []
                | Some storageClaim \<Rightarrow>
                    [\<lparr>VolumeMount.Name = ''dse-data'', MountPath = ''/var/lib/cassandra''\<rparr>])
           \<and> StatefulSetSpec.Selector (StatefulSet.Spec sts) =
               Some \<lparr>MatchLabels = GetRackLabels c dc rackName, MatchExpressions = []\<rparr>
           \<and> VolumeClaimTemplates (StatefulSet.Spec sts) =
               (case StorageClaim (DseDatacenter.Spec dc) of
                  None \<Rightarrow> []
                | Some storageClaim \<Rightarrow>
                    [\<lparr>PersistentVolumeClaim.ObjectMeta =
                        \<lparr>ObjectMeta.Name = ''dse-data'', Namespace = [],
                         Labels = (GetRackLabels c dc rackName)
                                    (ManagedByLabel c \<mapsto> ManagedByLabelValue c)\<rparr>,
                      Spec =
                        \<lparr>AccessModes = [ReadWriteOnce],
                         Resources = StorageClaim.Resources storageClaim,
                         StorageClassName =
                           Some (StorageClaim.StorageClassName storageClaim)\<rparr>\<rparr>])"
proof (cases "StorageClaim (DseDatacenter.Spec dc)")
  case None
  with assms show ?thesis
    apply (simp add: newStatefulSetForDseDatacenter_def Let_def AddManagedByLabel_def split_beta
             split del: if_split)
    apply (rule exI, rule conjI, rule refl)
    apply simp
    done
next
  case (Some storageClaim)
  with assms show ?thesis
    apply (simp add: newStatefulSetForDseDatacenter_def Let_def AddManagedByLabel_def split_beta
             split del: if_split)
    apply (rule exI, rule conjI, rule refl)
    apply simp
    done
qed

text \<open>
  C9. When config rendering fails, or config rendering succeeds and port resolution
  fails, or both succeed and image resolution fails, the constructor returns the
  nil descriptor with the error of that collaborator; and whenever it returns an
  error, the descriptor is nil.
\<close>

theorem synthesis_aborts_without_descriptor:
  "(\<forall>e. GetConfigAsJSON c dc = Inl e \<longrightarrow>
        newStatefulSetForDseDatacenter c rackName dc replicaCount = (None, Some e)) \<and>
   (\<forall>e. (\<exists>cfg. GetConfigAsJSON c dc = Inr cfg) \<and> GetContainerPorts c dc = Inl e \<longrightarrow>
        newStatefulSetForDseDatacenter c rackName dc replicaCount = (None, Some e)) \<and>
   (\<forall>e. (\<exists>cfg. GetConfigAsJSON c dc = Inr cfg) \<and> (\<exists>ports. GetContainerPorts c dc = Inr ports)
          \<and> GetServerImage c dc = Inl e \<longrightarrow>
        newStatefulSetForDseDatacenter c rackName dc replicaCount = (None, Some e)) \<and>
   (snd (newStatefulSetForDseDatacenter c rackName dc replicaCount) \<noteq> None \<longrightarrow>
      fst (newStatefulSetForDseDatacenter c rackName dc replicaCount) = None)"
  by (auto simp add: newStatefulSetForDseDatacenter_def Let_def
        split: sum.splits option.splits prod.splits)

text \<open>One failing collaborator at a time, on the sample datacenter.\<close>

theorem synthesis_aborts_without_descriptor_witness:
  "GetConfigAsJSON failing_config sample_datacenter = Inl (Error ''config is not valid JSON'') \<and>
   newStatefulSetForDseDatacenter failing_config ''rack1'' sample_datacenter 3 =
     (None, Some (Error ''config is not valid JSON'')) \<and>
   (\<exists>cfg. GetConfigAsJSON failing_ports sample_datacenter = Inr cfg) \<and>
   GetContainerPorts failing_ports sample_datacenter = Inl (Error ''no port for this version'') \<and>
   newStatefulSetForDseDatacenter failing_ports ''rack1'' sample_datacenter 3 =
     (None, Some (Error ''no port for this version'')) \<and>
   (\<exists>cfg. GetConfigAsJSON sample_collaborators imageless_datacenter = Inr cfg) \<and>
   (\<exists>ports. GetContainerPorts sample_collaborators imageless_datacenter = Inr ports) \<and>
   GetServerImage sample_collaborators imageless_datacenter = Inl (Error ''no server image'') \<and>
   newStatefulSetForDseDatacenter sample_collaborators ''rack1'' imageless_datacenter 3 =
     (None, Some (Error ''no server image'')) \<and>
   snd (newStatefulSetForDseDatacenter sample_collaborators ''rack1'' imageless_datacenter 3) \<noteq> None \<and>
   fst (newStatefulSetForDseDatacenter sample_collaborators ''rack1'' imageless_datacenter 3) = None"
proof -
  have a: "GetConfigAsJSON failing_config sample_datacenter = Inl (Error ''config is not valid JSON'')"
    by (simp add: failing_config_def)
  have b: "\<exists>cfg. GetConfigAsJSON failing_ports sample_datacenter = Inr cfg"
    "GetContainerPorts failing_ports sample_datacenter = Inl (Error ''no port for this version'')"
    by (simp_all add: failing_ports_def sample_collaborators_def)
  have d: "\<exists>cfg. GetConfigAsJSON sample_collaborators imageless_datacenter = Inr cfg"
    "\<exists>ports. GetContainerPorts sample_collaborators imageless_datacenter = Inr ports"
    "GetServerImage sample_collaborators imageless_datacenter = Inl (Error ''no server image'')"
    by (simp_all add: sample_collaborators_def imageless_datacenter_def)
  from synthesis_aborts_without_descriptor [of failing_config sample_datacenter "''rack1''" 3] a
  have a': "newStatefulSetForDseDatacenter failing_config ''rack1'' sample_datacenter 3 =
     (None, Some (Error ''config is not valid JSON''))"
    by blast
  from synthesis_aborts_without_descriptor [of failing_ports sample_datacenter "''rack1''" 3] b
  have b': "newStatefulSetForDseDatacenter failing_ports ''rack1'' sample_datacenter 3 =
     (None, Some (Error ''no port for this version''))"
    by blast
  from synthesis_aborts_without_descriptor [of sample_collaborators imageless_datacenter "''rack1''" 3] d
  have d': "newStatefulSetForDseDatacenter sample_collaborators ''rack1'' imageless_datacenter 3 =
     (None, Some (Error ''no server image''))"
    by blast
  then have e: "snd (newStatefulSetForDseDatacenter sample_collaborators ''rack1'' imageless_datacenter 3) \<noteq> None"
    by simp
  with synthesis_aborts_without_descriptor [of sample_collaborators imageless_datacenter "''rack1''" 3]
  have e': "fst (newStatefulSetForDseDatacenter sample_collaborators ''rack1'' imageless_datacenter 3) = None"
    by blast
  from a a' b b' d d' e e' show ?thesis by blast
qed

text \<open>
  C1, as the claim states it, fails: with a security decorator that returns an error
  on every template, the constructor still returns a descriptor and a nil error.
\<close>

theorem security_error_counterexample:
  "range (snd \<circ> AddManagementApiServerSecurity failing_security sample_datacenter) =
     {Some (Error ''could not find the mgmt-api secret'')} \<and>
   snd (newStatefulSetForDseDatacenter failing_security ''rack1'' sample_datacenter 3) = None \<and>
   fst (newStatefulSetForDseDatacenter failing_security ''rack1'' sample_datacenter 3) \<noteq> None"
  by (auto simp add: newStatefulSetForDseDatacenter_def failing_security_def
        sample_collaborators_def sample_datacenter_def Let_def)

text \<open>
  C1, amended. Once config rendering, port resolution and image resolution have
  succeeded, the constructor returns a descriptor and a nil error whatever the
  security decorator answers: the error of the decorator is dropped. The pod template
  of the descriptor is what the decorator left of the template it was handed, and
  that template is the complete one, every field as the constructor computed it:
  labels, affinity, security context, volumes, init container, service account and
  the two containers. Nothing is undone after the decorator has run.
\<close>

theorem security_error_is_discarded:
  assumes "GetConfigAsJSON c dc = Inr cfg"
    and "GetContainerPorts c dc = Inr ports"
    and "GetServerImage c dc = Inr img"
  shows "\<exists>sts. newStatefulSetForDseDatacenter c rackName dc replicaCount = (Some sts, None)
           \<and> Template (StatefulSet.Spec sts) =
               fst (AddManagementApiServerSecurity c dc
                 \<lparr>PodTemplateSpec.ObjectMeta =
                    \<lparr>ObjectMeta.Name = [], Namespace = [],
                     Labels = (GetRackLabels c dc rackName)
                       (ManagedByLabel c \<mapsto> ManagedByLabelValue c,
                        DseNodeState c \<mapsto> ''Ready-to-Start'')\<rparr>,
                  Spec =
                    \<lparr>Affinity = Some
                       \<lparr>NodeAffinity = calculateNodeAffinity
                          (foldl (\<lambda>zone rack. if Rack.Name rack = rackName
                                               then Zone rack else zone)
                             [] (GetRacks c (DseDatacenter.Spec dc))),
                        PodAntiAffinity = calculatePodAntiAffinity c
                          (AllowMultipleNodesPerWorker (DseDatacenter.Spec dc))\<rparr>,
                     SecurityContext = Some
                       \<lparr>RunAsUser = Some 999, RunAsGroup = Some 999, FSGroup = Some 999\<rparr>,
                     Volumes =
                       [\<lparr>Volume.Name = ''dse-config'', VolumeSource = EmptyDir\<rparr>,
                        \<lparr>Volume.Name = ''dse-logs'', VolumeSource = EmptyDir\<rparr>],
                     InitContainers =
                       [\<lparr>Container.Name = ''dse-config-init'',
                         Image = GetConfigBuilderImage c dc,
                         Args = [],
                         Resources = \<lparr>Limits = Map.empty, Requests = Map.empty\<rparr>,
                         Env =
                           [\<lparr>EnvVar.Name = ''CONFIG_FILE_DATA'', Value = cfg,
                             ValueFrom = None\<rparr>,
                            \<lparr>EnvVar.Name = ''POD_IP'', Value = [],
                             ValueFrom = Some (FieldRef ''status.podIP'')\<rparr>,
                            \<lparr>EnvVar.Name = ''RACK_NAME'', Value = [],
                             ValueFrom = Some (FieldRef
                               (''metadata.labels['' @ [CHR 0x27] @ RackLabel c
                                  @ [CHR 0x27] @ '']''))\<rparr>,
                            \<lparr>EnvVar.Name = ''DSE_VERSION'',
                             Value = DseVersion (DseDatacenter.Spec dc),
                             ValueFrom = None\<rparr>],
                         Ports = [],
                         LivenessProbe = None,
                         ReadinessProbe = None,
                         VolumeMounts =
                           [\<lparr>VolumeMount.Name = ''dse-config'', MountPath = ''/config''\<rparr>]\<rparr>],
                     ServiceAccountName =
                       (if ServiceAccount (DseDatacenter.Spec dc) \<noteq> []
                        then ServiceAccount (DseDatacenter.Spec dc) else ''default''),
                     Containers =
                       [\<lparr>Container.Name = ''dse'',
                         Image = img,
                         Args = [],
                         Resources = DseDatacenterSpec.Resources (DseDatacenter.Spec dc),
                         Env =
                           [\<lparr>EnvVar.Name = ''DS_LICENSE'', Value = ''accept'',
                             ValueFrom = None\<rparr>,
                            \<lparr>EnvVar.Name = ''DSE_AUTO_CONF_OFF'', Value = ''all'',
                             ValueFrom = None\<rparr>,
                            \<lparr>EnvVar.Name = ''USE_MGMT_API'', Value = ''true'',
                             ValueFrom = None\<rparr>,
                            \<lparr>EnvVar.Name = ''DSE_MGMT_EXPLICIT_START'', Value = ''true'',
                             ValueFrom = None\<rparr>],
                         Ports = ports,
                         LivenessProbe = Some
                           \<lparr>Handler = \<lparr>HTTPGet = Some
                              \<lparr>HTTPGetAction.Port = IntVal 8080,
                               Path = ''/api/v0/probes/liveness''\<rparr>\<rparr>,
                            InitialDelaySeconds = 15,
                            PeriodSeconds = 15\<rparr>,
                         ReadinessProbe = Some
                           \<lparr>Handler = \<lparr>HTTPGet = Some
                              \<lparr>HTTPGetAction.Port = IntVal 8080,
                               Path = ''/api/v0/probes/readiness''\<rparr>\<rparr>,
                            InitialDelaySeconds = 20,
                            PeriodSeconds = 10\<rparr>,
                         VolumeMounts =
                           [\<lparr>VolumeMount.Name = ''dse-config'', MountPath = ''/config''\<rparr>,
                            \<lparr>VolumeMount.Name = ''dse-logs'',
                             MountPath = ''/var/log/cassandra''\<rparr>] @
                           (case StorageClaim (DseDatacenter.Spec dc) of
                              None \<Rightarrow> []
                            | Some storageClaim \<Rightarrow>
                                [\<lparr>VolumeMount.Name = ''dse-data'',
                                  MountPath = ''/var/lib/cassandra''\<rparr>])\<rparr>,
                        \<lparr>Container.Name = ''dse-system-logger'',
                         Image = ''busybox'',
                         Args = [''/bin/sh'', ''-c'',
                                 ''tail -n+1 -F /var/log/cassandra/system.log''],
                         Resources = \<lparr>Limits = Map.empty, Requests = Map.empty\<rparr>,
                         Env = [],
                         Ports = [],
                         LivenessProbe = None,
                         ReadinessProbe = None,
                         VolumeMounts =
                           [\<lparr>VolumeMount.Name = ''dse-logs'',
                             MountPath = ''/var/log/cassandra''\<rparr>]\<rparr>]\<rparr>\<rparr>)"
proof (cases "StorageClaim (DseDatacenter.Spec dc)")
  case None
  with assms show ?thesis
    by (simp add: newStatefulSetForDseDatacenter_def Let_def AddManagedByLabel_def FromInt_def
          split_beta split del: if_split)
next
  case (Some storageClaim)
  with assms show ?thesis
    by (simp add: newStatefulSetForDseDatacenter_def Let_def AddManagedByLabel_def FromInt_def
          split_beta split del: if_split)
qed

text \<open>
  The failing decorator of the counterexample added its volume before it failed: the
  descriptor is returned with a nil error, with both containers and with that volume.
\<close>

theorem security_error_is_discarded_witness:
  "GetConfigAsJSON failing_security sample_datacenter = Inr ''{}'' \<and>
   GetContainerPorts failing_security sample_datacenter =
     Inr [\<lparr>ContainerPort.Name = ''native'', ContainerPort = 9042\<rparr>,
          \<lparr>ContainerPort.Name = ''mgmt-api-http'', ContainerPort = 8080\<rparr>] \<and>
   GetServerImage failing_security sample_datacenter = Inr ''datastax/dse-server:6.8.0'' \<and>
   fst (newStatefulSetForDseDatacenter failing_security ''rack1'' sample_datacenter 3) \<noteq> None \<and>
   snd (newStatefulSetForDseDatacenter failing_security ''rack1'' sample_datacenter 3) = None \<and>
   map Container.Name (Containers (PodTemplateSpec.Spec (Template (StatefulSet.Spec (the (fst
     (newStatefulSetForDseDatacenter failing_security ''rack1'' sample_datacenter 3)))))))
     = [''dse'', ''dse-system-logger''] \<and>
   map Volume.Name (Volumes (PodTemplateSpec.Spec (Template (StatefulSet.Spec (the (fst
     (newStatefulSetForDseDatacenter failing_security ''rack1'' sample_datacenter 3)))))))
     = [''dse-config'', ''dse-logs'', ''mgmt-api-certs'']"
proof -
  let ?r = "newStatefulSetForDseDatacenter failing_security ''rack1'' sample_datacenter 3"
  have a: "GetConfigAsJSON failing_security sample_datacenter = Inr ''{}''"
    and b: "GetContainerPorts failing_security sample_datacenter =
     Inr [\<lparr>ContainerPort.Name = ''native'', ContainerPort = 9042\<rparr>,
          \<lparr>ContainerPort.Name = ''mgmt-api-http'', ContainerPort = 8080\<rparr>]"
    and d: "GetServerImage failing_security sample_datacenter = Inr ''datastax/dse-server:6.8.0''"
    by (simp_all add: failing_security_def sample_collaborators_def sample_datacenter_def)
  from security_error_is_discarded [OF a b d, of "''rack1''" 3]
  obtain sts where r: "?r = (Some sts, None)"
    and containers: "map Container.Name (Containers (PodTemplateSpec.Spec
                       (Template (StatefulSet.Spec sts)))) = [''dse'', ''dse-system-logger'']"
    and volumes: "map Volume.Name (Volumes (PodTemplateSpec.Spec
                    (Template (StatefulSet.Spec sts))))
                    = [''dse-config'', ''dse-logs'', ''mgmt-api-certs'']"
    by (auto simp add: failing_security_def sample_collaborators_def)
  from r have "fst ?r \<noteq> None" "snd ?r = None" "the (fst ?r) = sts"
    by simp_all
  with a b d containers volumes show ?thesis by simp
qed

subsection \<open>Storage\<close>

text \<open>
  C6. On a stateful set that is returned: when the datacenter declares a storage
  claim, there is exactly one volume claim template, named \<open>dse-data\<close>, with the
  single access mode \<open>ReadWriteOnce\<close> and the storage class and resources of the
  claim; the template handed to the security decorator has the container \<open>dse\<close> first,
  with the mount of \<open>dse-data\<close> at \<^verbatim>\<open>/var/lib/cassandra\<close>; and the returned template
  still has that mount in a container named \<open>dse\<close> when the decorator only adds to
  the containers. When no storage claim is declared, there is no volume claim
  template.
\<close>

theorem storage_claim_gives_one_template:
  assumes "fst (newStatefulSetForDseDatacenter c rackName dc replicaCount) = Some sts"
  shows "(\<forall>storageClaim. StorageClaim (DseDatacenter.Spec dc) = Some storageClaim \<longrightarrow>
            VolumeClaimTemplates (StatefulSet.Spec sts) =
              [\<lparr>PersistentVolumeClaim.ObjectMeta =
                  \<lparr>ObjectMeta.Name = ''dse-data'', Namespace = [],
                   Labels = (GetRackLabels c dc rackName)
                              (ManagedByLabel c \<mapsto> ManagedByLabelValue c)\<rparr>,
                Spec =
                  \<lparr>AccessModes = [ReadWriteOnce],
                   Resources = StorageClaim.Resources storageClaim,
                   StorageClassName = Some (StorageClaim.StorageClassName storageClaim)\<rparr>\<rparr>]
            \<and> (\<exists>t main rest.
                  Template (StatefulSet.Spec sts) = fst (AddManagementApiServerSecurity c dc t)
                  \<and> Containers (PodTemplateSpec.Spec t) = main # rest
                  \<and> Container.Name main = ''dse''
                  \<and> \<lparr>VolumeMount.Name = ''dse-data'', MountPath = ''/var/lib/cassandra''\<rparr>
                        \<in> set (VolumeMounts main))
            \<and> (keepsVolumeMounts c dc
                 \<longrightarrow> (\<exists>k \<in> set (Containers (PodTemplateSpec.Spec
                                       (Template (StatefulSet.Spec sts)))).
                        Container.Name k = ''dse''
                        \<and> \<lparr>VolumeMount.Name = ''dse-data'', MountPath = ''/var/lib/cassandra''\<rparr>
                              \<in> set (VolumeMounts k)))) \<and>
         (StorageClaim (DseDatacenter.Spec dc) = None \<longrightarrow>
            VolumeClaimTemplates (StatefulSet.Spec sts) = [])"
proof -
  from newStatefulSet_success [OF assms]
  obtain cfg ports img where
    "GetConfigAsJSON c dc = Inr cfg" "GetContainerPorts c dc = Inr ports"
    "GetServerImage c dc = Inr img"
    by blast
  from newStatefulSet_result [OF this, of rackName replicaCount] assms
  obtain t main rest where
    tmpl: "Template (StatefulSet.Spec sts) = fst (AddManagementApiServerSecurity c dc t)"
    and cs: "Containers (PodTemplateSpec.Spec t) = main # rest"
    and name: "Container.Name main = ''dse''"
    and mounts: "VolumeMounts main =
               [\<lparr>VolumeMount.Name = ''dse-config'', MountPath = ''/config''\<rparr>,
                \<lparr>VolumeMount.Name = ''dse-logs'', MountPath = ''/var/log/cassandra''\<rparr>] @
               (case StorageClaim (DseDatacenter.Spec dc) of
                  None \<Rightarrow> []
                | Some storageClaim \<Rightarrow>
                    [\<lparr>VolumeMount.Name = ''dse-data'', MountPath = ''/var/lib/cassandra''\<rparr>])"
    and vct: "VolumeClaimTemplates (StatefulSet.Spec sts) =
               (case StorageClaim (DseDatacenter.Spec dc) of
                  None \<Rightarrow> []
                | Some storageClaim \<Rightarrow>
                    [\<lparr>PersistentVolumeClaim.ObjectMeta =
                        \<lparr>ObjectMeta.Name = ''dse-data'', Namespace = [],
                         Labels = (GetRackLabels c dc rackName)
                                    (ManagedByLabel c \<mapsto> ManagedByLabelValue c)\<rparr>,
                      Spec =
                        \<lparr>AccessModes = [ReadWriteOnce],
                         Resources = StorageClaim.Resources storageClaim,
                         StorageClassName =
                           Some (StorageClaim.StorageClassName storageClaim)\<rparr>\<rparr>])"
    by auto
  show ?thesis
  proof (intro conjI allI impI)
    fix storageClaim
    assume sc: "StorageClaim (DseDatacenter.Spec dc) = Some storageClaim"
    with vct show "VolumeClaimTemplates (StatefulSet.Spec sts) =
              [\<lparr>PersistentVolumeClaim.ObjectMeta =
                  \<lparr>ObjectMeta.Name = ''dse-data'', Namespace = [],
                   Labels = (GetRackLabels c dc rackName)
                              (ManagedByLabel c \<mapsto> ManagedByLabelValue c)\<rparr>,
                Spec =
                  \<lparr>AccessModes = [ReadWriteOnce],
                   Resources = StorageClaim.Resources storageClaim,
                   StorageClassName = Some (StorageClaim.StorageClassName storageClaim)\<rparr>\<rparr>]"
      by simp
    from sc mounts
    have m: "\<lparr>VolumeMount.Name = ''dse-data'', MountPath = ''/var/lib/cassandra''\<rparr>
               \<in> set (VolumeMounts main)"
      by simp
    with tmpl cs name
    show "\<exists>t main rest.
            Template (StatefulSet.Spec sts) = fst (AddManagementApiServerSecurity c dc t)
            \<and> Containers (PodTemplateSpec.Spec t) = main # rest
            \<and> Container.Name main = ''dse''
            \<and> \<lparr>VolumeMount.Name = ''dse-data'', MountPath = ''/var/lib/cassandra''\<rparr>
                  \<in> set (VolumeMounts main)"
      by blast
    assume keeps: "keepsVolumeMounts c dc"
    from cs have "main \<in> set (Containers (PodTemplateSpec.Spec t))" by simp
    with keeps obtain k' where
      "k' \<in> set (Containers (PodTemplateSpec.Spec (fst (AddManagementApiServerSecurity c dc t))))"
      "Container.Name k' = Container.Name main"
      "set (VolumeMounts main) \<subseteq> set (VolumeMounts k')"
      unfolding keepsVolumeMounts_def by blast
    with tmpl name m
    show "\<exists>k \<in> set (Containers (PodTemplateSpec.Spec (Template (StatefulSet.Spec sts)))).
            Container.Name k = ''dse''
            \<and> \<lparr>VolumeMount.Name = ''dse-data'', MountPath = ''/var/lib/cassandra''\<rparr>
                  \<in> set (VolumeMounts k)"
      by auto
  next
    assume "StorageClaim (DseDatacenter.Spec dc) = None"
    with vct show "VolumeClaimTemplates (StatefulSet.Spec sts) = []" by simp
  qed
qed

text \<open>
  The sample datacenter with its claim of 10Gi, under a decorator that adds a mount
  of its own to the container \<open>dse\<close>, and the same datacenter without storage claim.
\<close>

theorem storage_claim_gives_one_template_witness:
  "fst (newStatefulSetForDseDatacenter sample_collaborators ''rack1'' sample_datacenter 3) \<noteq> None \<and>
   StorageClaim (DseDatacenter.Spec sample_datacenter) = Some
     \<lparr>StorageClaim.StorageClassName = ''standard'',
      Resources = \<lparr>Limits = Map.empty, Requests = [''storage'' \<mapsto> ''10Gi'']\<rparr>\<rparr> \<and>
   keepsVolumeMounts sample_collaborators sample_datacenter \<and>
   VolumeClaimTemplates (StatefulSet.Spec (the (fst
       (newStatefulSetForDseDatacenter sample_collaborators ''rack1'' sample_datacenter 3)))) =
     [\<lparr>PersistentVolumeClaim.ObjectMeta =
         \<lparr>ObjectMeta.Name = ''dse-data'', Namespace = [],
          Labels = (GetRackLabels sample_collaborators sample_datacenter ''rack1'')
                     (''app.kubernetes.io/managed-by'' \<mapsto> ''dse-operator'')\<rparr>,
       Spec =
         \<lparr>AccessModes = [ReadWriteOnce],
          Resources = \<lparr>Limits = Map.empty, Requests = [''storage'' \<mapsto> ''10Gi'']\<rparr>,
          StorageClassName = Some ''standard''\<rparr>\<rparr>] \<and>
   (\<exists>k. k \<in> set (Containers (PodTemplateSpec.Spec (Template (StatefulSet.Spec (the (fst
       (newStatefulSetForDseDatacenter sample_collaborators ''rack1'' sample_datacenter 3)))))))
       \<and> Container.Name k = ''dse''
       \<and> \<lparr>VolumeMount.Name = ''dse-data'', MountPath = ''/var/lib/cassandra''\<rparr>
             \<in> set (VolumeMounts k)) \<and>
   fst (newStatefulSetForDseDatacenter sample_collaborators ''rack1'' ephemeral_datacenter 3) \<noteq> None \<and>
   StorageClaim (DseDatacenter.Spec ephemeral_datacenter) = None \<and>
   VolumeClaimTemplates (StatefulSet.Spec (the (fst
       (newStatefulSetForDseDatacenter sample_collaborators ''rack1'' ephemeral_datacenter 3)))) = []"
proof -
  let ?r = "newStatefulSetForDseDatacenter sample_collaborators ''rack1'' sample_datacenter 3"
  let ?e = "newStatefulSetForDseDatacenter sample_collaborators ''rack1'' ephemeral_datacenter 3"
  have ok: "fst ?r \<noteq> None"
    by (simp add: newStatefulSetForDseDatacenter_def sample_collaborators_def
          sample_datacenter_def Let_def)
  have ok': "fst ?e \<noteq> None"
    by (simp add: newStatefulSetForDseDatacenter_def sample_collaborators_def
          ephemeral_datacenter_def sample_datacenter_def Let_def)
  have claim: "StorageClaim (DseDatacenter.Spec sample_datacenter) = Some
     \<lparr>StorageClaim.StorageClassName = ''standard'',
      Resources = \<lparr>Limits = Map.empty, Requests = [''storage'' \<mapsto> ''10Gi'']\<rparr>\<rparr>"
    by (simp add: sample_datacenter_def)
  have none: "StorageClaim (DseDatacenter.Spec ephemeral_datacenter) = None"
    by (simp add: ephemeral_datacenter_def)
  have keeps: "keepsVolumeMounts sample_collaborators sample_datacenter"
    unfolding keepsVolumeMounts_def
  proof (intro allI ballI)
    fix t :: PodTemplateSpec and k
    assume k: "k \<in> set (Containers (PodTemplateSpec.Spec t))"
    let ?f = "\<lambda>k. if Container.Name k = ''dse''
                   then k\<lparr>VolumeMounts := VolumeMounts k @
                          [\<lparr>VolumeMount.Name = ''mgmt-api-certs'',
                            MountPath = ''/management-api-certs''\<rparr>]\<rparr>
                   else k"
    have "Containers (PodTemplateSpec.Spec
            (fst (AddManagementApiServerSecurity sample_collaborators sample_datacenter t))) =
          map ?f (Containers (PodTemplateSpec.Spec t))"
      by (simp add: sample_collaborators_def)
    with k have "?f k \<in> set (Containers (PodTemplateSpec.Spec
            (fst (AddManagementApiServerSecurity sample_collaborators sample_datacenter t))))"
      by (simp only: set_map) (rule imageI)
    moreover have "Container.Name (?f k) = Container.Name k"
      "set (VolumeMounts k) \<subseteq> set (VolumeMounts (?f k))"
      by auto
    ultimately show "\<exists>k' \<in> set (Containers (PodTemplateSpec.Spec
            (fst (AddManagementApiServerSecurity sample_collaborators sample_datacenter t)))).
          Container.Name k' = Container.Name k
          \<and> set (VolumeMounts k) \<subseteq> set (VolumeMounts k')"
      by blast
  qed
  have tag: "ManagedByLabel sample_collaborators = ''app.kubernetes.io/managed-by''"
    "ManagedByLabelValue sample_collaborators = ''dse-operator''"
    by (simp_all add: sample_collaborators_def)
  from ok have r: "fst ?r = Some (the (fst ?r))" by simp
  from ok' have e: "fst ?e = Some (the (fst ?e))" by simp
  from storage_claim_gives_one_template [OF r] claim keeps tag
  have one: "VolumeClaimTemplates (StatefulSet.Spec (the (fst ?r))) =
     [\<lparr>PersistentVolumeClaim.ObjectMeta =
         \<lparr>ObjectMeta.Name = ''dse-data'', Namespace = [],
          Labels = (GetRackLabels sample_collaborators sample_datacenter ''rack1'')
                     (''app.kubernetes.io/managed-by'' \<mapsto> ''dse-operator'')\<rparr>,
       Spec =
         \<lparr>AccessModes = [ReadWriteOnce],
          Resources = \<lparr>Limits = Map.empty, Requests = [''storage'' \<mapsto> ''10Gi'']\<rparr>,
          StorageClassName = Some ''standard''\<rparr>\<rparr>]"
    and mount: "\<exists>k. k \<in> set (Containers (PodTemplateSpec.Spec (Template (StatefulSet.Spec
        (the (fst ?r))))))
       \<and> Container.Name k = ''dse''
       \<and> \<lparr>VolumeMount.Name = ''dse-data'', MountPath = ''/var/lib/cassandra''\<rparr>
             \<in> set (VolumeMounts k)"
    by (simp, blast)
  from storage_claim_gives_one_template [OF e] none
  have zero: "VolumeClaimTemplates (StatefulSet.Spec (the (fst ?e))) = []"
    by blast
  from ok claim keeps one mount ok' none zero show ?thesis by blast
qed

subsection \<open>Selector and pod labels\<close>

text \<open>
  C10. On a stateful set that is returned, the selector is the rack label set, with
  no match expression and without the managed-by tag, and the pod labels are the rack
  label set with the managed-by tag and the node state \<open>Ready-to-Start\<close> added. So the
  pod labels extend the selector, and strictly: the selector matches the pods of the
  stateful set. This needs that the security decorator leaves the pod labels alone
  and that the managed-by label and the node-state label are two labels, neither of
  them a rack label.
\<close>

theorem selector_within_pod_labels:
  assumes ok: "fst (newStatefulSetForDseDatacenter c rackName dc replicaCount) = Some sts"
    and untouched: "keepsPodLabels c dc"
    and managed: "ManagedByLabel c \<notin> dom (GetRackLabels c dc rackName)"
    and state: "DseNodeState c \<notin> dom (GetRackLabels c dc rackName)"
    and distinct: "ManagedByLabel c \<noteq> DseNodeState c"
  shows "\<exists>selector podLabels.
           StatefulSetSpec.Selector (StatefulSet.Spec sts) =
             Some \<lparr>MatchLabels = selector, MatchExpressions = []\<rparr>
           \<and> ObjectMeta.Labels (PodTemplateSpec.ObjectMeta (Template (StatefulSet.Spec sts)))
               = podLabels
           \<and> selector = GetRackLabels c dc rackName
           \<and> podLabels = selector(ManagedByLabel c \<mapsto> ManagedByLabelValue c,
                                   DseNodeState c \<mapsto> ''Ready-to-Start'')
           \<and> podLabels (ManagedByLabel c) = Some (ManagedByLabelValue c)
           \<and> podLabels (DseNodeState c) = Some ''Ready-to-Start''
           \<and> selector \<subseteq>\<^sub>m podLabels
           \<and> dom selector \<subset> dom podLabels"
proof -
  from newStatefulSet_success [OF ok]
  obtain cfg ports img where
    "GetConfigAsJSON c dc = Inr cfg" "GetContainerPorts c dc = Inr ports"
    "GetServerImage c dc = Inr img"
    by blast
  from newStatefulSet_result [OF this, of rackName replicaCount] ok
  obtain t where
    tmpl: "Template (StatefulSet.Spec sts) = fst (AddManagementApiServerSecurity c dc t)"
    and labels: "ObjectMeta.Labels (PodTemplateSpec.ObjectMeta t) =
               (GetRackLabels c dc rackName)
                 (ManagedByLabel c \<mapsto> ManagedByLabelValue c,
                  DseNodeState c \<mapsto> ''Ready-to-Start'')"
    and sel: "StatefulSetSpec.Selector (StatefulSet.Spec sts) =
               Some \<lparr>MatchLabels = GetRackLabels c dc rackName, MatchExpressions = []\<rparr>"
    by auto
  let ?selector = "GetRackLabels c dc rackName"
  let ?podLabels = "?selector(ManagedByLabel c \<mapsto> ManagedByLabelValue c,
                              DseNodeState c \<mapsto> ''Ready-to-Start'')"
  from tmpl labels untouched
  have pod: "ObjectMeta.Labels (PodTemplateSpec.ObjectMeta (Template (StatefulSet.Spec sts)))
               = ?podLabels"
    by (simp add: keepsPodLabels_def)
  from distinct have m: "?podLabels (ManagedByLabel c) = Some (ManagedByLabelValue c)"
    by simp
  have s: "?podLabels (DseNodeState c) = Some ''Ready-to-Start''"
    by simp
  from managed state have le: "?selector \<subseteq>\<^sub>m ?podLabels"
    by (auto simp add: map_le_def)
  from state have strict: "dom ?selector \<subset> dom ?podLabels"
    by auto
  from sel pod m s le strict show ?thesis by blast
qed

text \<open>The sample datacenter: the rack label is on both sides, the node state on the pods only.\<close>

theorem selector_within_pod_labels_witness:
  "fst (newStatefulSetForDseDatacenter sample_collaborators ''rack1'' sample_datacenter 3) \<noteq> None \<and>
   keepsPodLabels sample_collaborators sample_datacenter \<and>
   ManagedByLabel sample_collaborators
     \<notin> dom (GetRackLabels sample_collaborators sample_datacenter ''rack1'') \<and>
   DseNodeState sample_collaborators
     \<notin> dom (GetRackLabels sample_collaborators sample_datacenter ''rack1'') \<and>
   ManagedByLabel sample_collaborators \<noteq> DseNodeState sample_collaborators \<and>
   ObjectMeta.Labels (PodTemplateSpec.ObjectMeta (Template (StatefulSet.Spec (the (fst
      (newStatefulSetForDseDatacenter sample_collaborators ''rack1'' sample_datacenter 3))))))
     ''com.datastax.dse.node.state'' = Some ''Ready-to-Start'' \<and>
   ObjectMeta.Labels (PodTemplateSpec.ObjectMeta (Template (StatefulSet.Spec (the (fst
      (newStatefulSetForDseDatacenter sample_collaborators ''rack1'' sample_datacenter 3))))))
     ''com.datastax.dse.rack'' = Some ''rack1'' \<and>
   MatchLabels (the (StatefulSetSpec.Selector (StatefulSet.Spec (the (fst
      (newStatefulSetForDseDatacenter sample_collaborators ''rack1'' sample_datacenter 3))))))
     ''com.datastax.dse.rack'' = Some ''rack1'' \<and>
   MatchLabels (the (StatefulSetSpec.Selector (StatefulSet.Spec (the (fst
      (newStatefulSetForDseDatacenter sample_collaborators ''rack1'' sample_datacenter 3))))))
     ''com.datastax.dse.node.state'' = None"
proof -
  let ?r = "newStatefulSetForDseDatacenter sample_collaborators ''rack1'' sample_datacenter 3"
  have ok: "fst ?r \<noteq> None"
    by (simp add: newStatefulSetForDseDatacenter_def sample_collaborators_def
          sample_datacenter_def Let_def)
  then have r: "fst ?r = Some (the (fst ?r))" by simp
  have keeps: "keepsPodLabels sample_collaborators sample_datacenter"
    by (simp add: keepsPodLabels_def sample_collaborators_def)
  have names: "ManagedByLabel sample_collaborators = ''app.kubernetes.io/managed-by''"
    "DseNodeState sample_collaborators = ''com.datastax.dse.node.state''"
    and rack: "GetRackLabels sample_collaborators sample_datacenter ''rack1'' =
      [''com.datastax.dse.cluster'' \<mapsto> ''cluster1'',
       ''com.datastax.dse.datacenter'' \<mapsto> ''dc1'',
       ''com.datastax.dse.rack'' \<mapsto> ''rack1'']"
    by (simp_all add: sample_collaborators_def sample_datacenter_def)
  have fresh: "ManagedByLabel sample_collaborators
                 \<notin> dom (GetRackLabels sample_collaborators sample_datacenter ''rack1'')"
    "DseNodeState sample_collaborators
       \<notin> dom (GetRackLabels sample_collaborators sample_datacenter ''rack1'')"
    "ManagedByLabel sample_collaborators \<noteq> DseNodeState sample_collaborators"
    by (simp_all add: names rack)
  from selector_within_pod_labels [OF r keeps fresh]
  obtain selector podLabels where
    sel: "StatefulSetSpec.Selector (StatefulSet.Spec (the (fst ?r))) =
            Some \<lparr>MatchLabels = selector, MatchExpressions = []\<rparr>"
    and pod: "ObjectMeta.Labels (PodTemplateSpec.ObjectMeta
                (Template (StatefulSet.Spec (the (fst ?r))))) = podLabels"
    and selector: "selector = GetRackLabels sample_collaborators sample_datacenter ''rack1''"
    and state: "podLabels (DseNodeState sample_collaborators) = Some ''Ready-to-Start''"
    and le: "selector \<subseteq>\<^sub>m podLabels"
    by blast
  from selector rack have s1: "selector ''com.datastax.dse.rack'' = Some ''rack1''"
    and s2: "selector ''com.datastax.dse.node.state'' = None"
    by simp_all
  from le s1 have p1: "podLabels ''com.datastax.dse.rack'' = Some ''rack1''"
    by (auto simp add: map_le_def dom_def)
  from state names have p2: "podLabels ''com.datastax.dse.node.state'' = Some ''Ready-to-Start''"
    by simp
  from ok keeps fresh sel pod s1 s2 p1 p2 show ?thesis by simp
qed

end
